theory Spec2Isabelle
  imports Complex_Main "HOL-Library.Sublist" "HOL-Library.Log_Nat"
begin

section \<open>Python string operations used by the workers\<close>

text \<open>
  Python \<open>str\<close> values are modelled as \<open>string\<close>. The case conversions are the ASCII
  ones: the strings they are applied to (file names, DuckDB type names, column names)
  are ASCII in every use the workers make of them; other bytes pass through unchanged.
\<close>

abbreviation apos :: string where
  "apos \<equiv> [CHR 0x27]"

definition upper_char :: "char \<Rightarrow> char" where
  "upper_char c =
     (let n = (of_char c :: nat) in if 97 \<le> n \<and> n \<le> 122 then char_of (n - 32) else c)"

definition lower_char :: "char \<Rightarrow> char" where
  "lower_char c =
     (let n = (of_char c :: nat) in if 65 \<le> n \<and> n \<le> 90 then char_of (n + 32) else c)"

definition upper :: "string \<Rightarrow> string" where
  "upper s = map upper_char s"

definition lower :: "string \<Rightarrow> string" where
  "lower s = map lower_char s"

text \<open>\<open>sub in s\<close>: \<open>sub\<close> occurs in \<open>s\<close> as a contiguous run.\<close>

definition contains :: "string \<Rightarrow> string \<Rightarrow> bool" where
  "contains sub s = sublist sub s"

text \<open>\<open>s.endswith(suf)\<close>.\<close>

definition endswith :: "string \<Rightarrow> string \<Rightarrow> bool" where
  "endswith s suf = suffix suf s"

text \<open>\<open>sep.join(xs)\<close>.\<close>

fun join :: "string \<Rightarrow> string list \<Rightarrow> string" where
  "join sep [] = []"
| "join sep [x] = x"
| "join sep (x # y # ys) = x @ sep @ join sep (y # ys)"

text \<open>\<open>s.split(c)[-1]\<close> and \<open>s.split(c)[0]\<close> for a one-character separator.\<close>

definition split_last :: "char \<Rightarrow> string \<Rightarrow> string" where
  "split_last c s = rev (takeWhile (\<lambda>x. x \<noteq> c) (rev s))"

definition split_first :: "char \<Rightarrow> string \<Rightarrow> string" where
  "split_first c s = takeWhile (\<lambda>x. x \<noteq> c) s"

text \<open>\<open>s.strip(c)\<close> for a one-character set.\<close>

definition strip :: "char \<Rightarrow> string \<Rightarrow> string" where
  "strip c s = rev (dropWhile (\<lambda>x. x = c) (rev (dropWhile (\<lambda>x. x = c) s)))"

text \<open>\<open>str(n)\<close> for an integer.\<close>

function str_nat :: "nat \<Rightarrow> string" where
  "str_nat n =
     (if n < 10 then [char_of (48 + n)] else str_nat (n div 10) @ [char_of (48 + n mod 10)])"
  by pat_completeness auto
termination
  by (relation "measure (\<lambda>n. n)") auto

declare str_nat.simps [simp del]

definition str_int :: "int \<Rightarrow> string" where
  "str_int i = (if i < 0 then ''-'' @ str_nat (nat (- i)) else str_nat (nat i))"

section \<open>Python floats\<close>

text \<open>
  A Python float is an IEEE 754 double. A finite double is held as the rational number
  it denotes; the two infinities are values of their own. No computation of the workers
  yields a NaN. Every arithmetic step gives the double nearest to the exact result,
  ties going to the even significand (\<open>round_double\<close>):
  \<^item> \<open>binade x\<close> is the exponent \<open>e\<close> with \<open>2^e \<le> |x| < 2^(e+1)\<close>;
  \<^item> the significand has 53 bits, so the result is a multiple of \<open>2^(e-52)\<close>, and of
    \<open>2^(-1074)\<close> at least (the subnormal range);
  \<^item> a rounded value whose exponent exceeds 1023 is an infinity.
\<close>

datatype pyfloat = Fin rat | PInf | NInf

definition round_half_even :: "rat \<Rightarrow> int" where
  "round_half_even y =
     (let f = \<lfloor>y\<rfloor>; d = y - of_int f
      in if d < 1 / 2 then f else if d > 1 / 2 then f + 1 else if even f then f else f + 1)"

definition binade :: "rat \<Rightarrow> int" where
  "binade x =
     (let a = bitlen \<bar>fst (quotient_of x)\<bar> - bitlen (snd (quotient_of x))
      in if 2 powi a \<le> \<bar>x\<bar> then a else a - 1)"

definition round_double :: "rat \<Rightarrow> pyfloat" where
  "round_double x =
     (if x = 0 then Fin 0
      else
        (let q = max (binade x - 52) (- 1074);
             r = of_int (round_half_even (x / 2 powi q)) * 2 powi q
         in if r \<noteq> 0 \<and> 1023 < binade r then (if 0 < r then PInf else NInf) else Fin r))"

text \<open>
  The operations the size estimate uses, in the shape it uses them: a product of two
  finite floats, a sum with a finite float, a quotient by a positive finite float, and
  the comparison with a number.
\<close>

definition float_mul :: "rat \<Rightarrow> rat \<Rightarrow> pyfloat" where
  "float_mul a b = round_double (a * b)"

definition float_add :: "pyfloat \<Rightarrow> rat \<Rightarrow> pyfloat" where
  "float_add x b = (case x of Fin a \<Rightarrow> round_double (a + b) | PInf \<Rightarrow> PInf | NInf \<Rightarrow> NInf)"

definition float_div :: "pyfloat \<Rightarrow> rat \<Rightarrow> pyfloat" where
  "float_div x b = (case x of Fin a \<Rightarrow> round_double (a / b) | PInf \<Rightarrow> PInf | NInf \<Rightarrow> NInf)"

definition float_gt :: "pyfloat \<Rightarrow> rat \<Rightarrow> bool" where
  "float_gt x b = (case x of Fin a \<Rightarrow> b < a | PInf \<Rightarrow> True | NInf \<Rightarrow> False)"

section \<open>Query builder\<close>

text \<open>
  A schema is the result of \<open>DESCRIBE SELECT * FROM read_parquet(...)\<close>: rows whose first
  two fields are the column name and the column type.
\<close>

type_synonym schema = "(string \<times> string) list"

text \<open>
  The extent after \<open>transform_bbox_to_4326\<close>. The coordinates are floats that the
  f-strings only ever format; each field holds the text Python formats the float to.
\<close>

record rect =
  xMinimum :: string
  yMinimum :: string
  xMaximum :: string
  yMaximum :: string

subsection \<open>\<open>Worker.process_schema_columns\<close> (utils.py)\<close>

text \<open>The body of the loop: the SELECT entry of one schema row.\<close>

definition column_entry :: "string \<times> string \<Rightarrow> string" where
  \<open>column_entry row =
     (let col_name = fst row;
          col_type = snd row;
          quoted_col_name = ''"'' @ col_name @ ''"''
      in if contains ''STRUCT'' (upper col_type) \<or> contains ''MAP'' (upper col_type) then
           ''TO_JSON('' @ quoted_col_name @ '') AS '' @ quoted_col_name
         else if contains ''[]'' col_type then
           ''array_to_string('' @ quoted_col_name @ '', '' @ apos @ '', '' @ apos @ '') AS ''
             @ quoted_col_name
         else if upper col_type = ''UTINYINT'' then
           ''CAST('' @ quoted_col_name @ '' AS INTEGER) AS '' @ quoted_col_name
         else quoted_col_name)\<close>

text \<open>The loop appends one entry per row to \<open>columns\<close>, which starts empty.\<close>

fun process_rows :: "schema \<Rightarrow> string list \<Rightarrow> string list" where
  "process_rows [] columns = columns"
| "process_rows (row # rows) columns = process_rows rows (columns @ [column_entry row])"

definition process_schema_columns :: "schema \<Rightarrow> string list" where
  "process_schema_columns schema_result = process_rows schema_result []"

subsection \<open>The SELECT list in \<open>Worker.run\<close>\<close>

text \<open>utils.py, lines 122 to 133.\<close>

definition select_query :: "string \<Rightarrow> string \<Rightarrow> schema \<Rightarrow> string" where
  \<open>select_query dataset_url output_file schema_result =
     (if \<not> endswith output_file ''.parquet'' then
        (let columns = process_schema_columns schema_result
         in if contains ''overture'' dataset_url then
              ''SELECT "names"."primary" as name,'' @ join '', '' columns
            else ''SELECT '' @ join '', '' columns)
      else ''SELECT *'')\<close>

text \<open>
  qgis_plugin_gpq_downloader.py, lines 192 to 217. The loop over the schema is the loop of
  \<open>process_schema_columns\<close>, written inline.
\<close>

definition has_names_column :: "schema \<Rightarrow> bool" where
  "has_names_column schema_result = list_ex (\<lambda>row. contains ''names'' (fst row)) schema_result"

definition plugin_select_query :: "string \<Rightarrow> string \<Rightarrow> schema \<Rightarrow> string" where
  \<open>plugin_select_query dataset_url output_file schema_result =
     (if \<not> endswith output_file ''.parquet'' then
        (let columns = process_schema_columns schema_result
         in if contains ''overture'' dataset_url \<and> has_names_column schema_result then
              ''SELECT "names"."primary" as name,'' @ join '', '' columns
            else ''SELECT '' @ join '', '' columns)
      else ''SELECT *'')\<close>

subsection \<open>The WHERE clause in \<open>Worker.run\<close>\<close>

text \<open>
  \<open>bbox_column\<close> is \<open>validation_results.get('bbox_column')\<close>: \<open>None\<close> when the key is
  missing or holds \<open>None\<close>. The test \<open>if bbox_column:\<close> is Python truthiness: a string
  that is not empty.
\<close>

definition truthy :: "string option \<Rightarrow> bool" where
  "truthy v = (case v of None \<Rightarrow> False | Some s \<Rightarrow> s \<noteq> [])"

text \<open>utils.py, lines 136 to 154.\<close>

definition where_clause :: "string option \<Rightarrow> rect \<Rightarrow> string" where
  \<open>where_clause bbox_column bbox =
     (if truthy bbox_column then
        ''\<newline>                WHERE "'' @ the bbox_column @ ''".xmin BETWEEN '' @ xMinimum bbox @ '' AND '' @ xMaximum bbox @
        ''\<newline>                AND "'' @ the bbox_column @ ''".ymin BETWEEN '' @ yMinimum bbox @ '' AND '' @ yMaximum bbox @
        ''\<newline>                ''
      else
        ''\<newline>                WHERE ST_Intersects('' @
        ''\<newline>                    geometry,'' @
        ''\<newline>                    ST_GeomFromText('POLYGON(('' @ xMinimum bbox @ '' '' @ yMinimum bbox @ '','' @
        ''\<newline>                                            '' @ xMaximum bbox @ '' '' @ yMinimum bbox @ '','' @
        ''\<newline>                                            '' @ xMaximum bbox @ '' '' @ yMaximum bbox @ '','' @
        ''\<newline>                                            '' @ xMinimum bbox @ '' '' @ yMaximum bbox @ '','' @
        ''\<newline>                                            '' @ xMinimum bbox @ '' '' @ yMinimum bbox @ ''))')'' @
        ''\<newline>                )'' @
        ''\<newline>                '')\<close>

text \<open>qgis_plugin_gpq_downloader.py, lines 220 to 238.\<close>

definition plugin_where_clause :: "string option \<Rightarrow> rect \<Rightarrow> string" where
  \<open>plugin_where_clause bbox_column bbox =
     (if truthy bbox_column then
        ''\<newline>                    WHERE "'' @ the bbox_column @ ''".xmin BETWEEN '' @ xMinimum bbox @ '' AND '' @ xMaximum bbox @
        ''\<newline>                    AND "'' @ the bbox_column @ ''".ymin BETWEEN '' @ yMinimum bbox @ '' AND '' @ yMaximum bbox @
        ''\<newline>                    ''
      else
        ''\<newline>                    WHERE ST_Intersects('' @
        ''\<newline>                        geometry,'' @
        ''\<newline>                        ST_GeomFromText('POLYGON(('' @ xMinimum bbox @ '' '' @ yMinimum bbox @ '','' @
        ''\<newline>                                            '' @ xMaximum bbox @ '' '' @ yMinimum bbox @ '','' @
        ''\<newline>                                            '' @ xMaximum bbox @ '' '' @ yMaximum bbox @ '','' @
        ''\<newline>                                            '' @ xMinimum bbox @ '' '' @ yMaximum bbox @ '','' @
        ''\<newline>                                            '' @ xMinimum bbox @ '' '' @ yMinimum bbox @ ''))')'' @
        ''\<newline>                    )'' @
        ''\<newline>                    '')\<close>

text \<open>The statement that materializes the result (utils.py, lines 157 to 162).\<close>

definition table_name :: string where
  "table_name = ''download_data''"

definition base_query :: "string \<Rightarrow> string \<Rightarrow> string \<Rightarrow> string" where
  \<open>base_query sel dataset_url wh =
     ''\<newline>            CREATE TABLE '' @ table_name @ '' AS ('' @
     ''\<newline>                '' @ sel @ '' FROM read_parquet('' @ apos @ dataset_url @ apos @ '')'' @
     ''\<newline>                '' @ wh @
     ''\<newline>            ) '' @
     ''\<newline>            ''\<close>

definition plugin_base_query :: "string \<Rightarrow> string \<Rightarrow> string \<Rightarrow> string" where
  \<open>plugin_base_query sel dataset_url wh =
     ''\<newline>                CREATE TABLE '' @ table_name @ '' AS ('' @
     ''\<newline>                    '' @ sel @ '' FROM read_parquet('' @ apos @ dataset_url @ apos @ '')'' @
     ''\<newline>                    '' @ wh @
     ''\<newline>                ) '' @
     ''\<newline>                ''\<close>

section \<open>Effects: signals, engine calls, exceptions\<close>

text \<open>
  A run of a worker is observed as the list of what it did, in order: the signals it
  emitted and the calls it made on the DuckDB connection. Calls to \<open>print\<close> are
  left out.
\<close>

datatype 's event =
    Emit 's
  | Connect "string option"
  | Execute string
  | Commit
  | Close

type_synonym 's trace = "'s event list"

text \<open>
  What a statement does to the control flow: it raises an exception (\<open>str(e)\<close> is
  kept), it executes \<open>return\<close>, or it completes with a value and the next statement runs.
\<close>

datatype ('r, 'a) flow = Raise string | Return 'r | Next 'a

type_synonym ('s, 'r, 'a) action = "'s trace \<Rightarrow> 's trace \<times> ('r, 'a) flow"

definition andthen :: "('s, 'r, 'a) action \<Rightarrow> ('a \<Rightarrow> ('s, 'r, 'b) action) \<Rightarrow> ('s, 'r, 'b) action" where
  "andthen m f tr =
     (case m tr of
        (tr', Raise e) \<Rightarrow> (tr', Raise e)
      | (tr', Return r) \<Rightarrow> (tr', Return r)
      | (tr', Next a) \<Rightarrow> f a tr')"

definition proceed :: "'a \<Rightarrow> ('s, 'r, 'a) action" where
  "proceed a tr = (tr, Next a)"

definition returns :: "'r \<Rightarrow> ('s, 'r, 'a) action" where
  "returns r tr = (tr, Return r)"

definition raise :: "string \<Rightarrow> ('s, 'r, 'a) action" where
  "raise e tr = (tr, Raise e)"

definition emit :: "'s \<Rightarrow> ('s, 'r, unit) action" where
  "emit s tr = (tr @ [Emit s], Next ())"

text \<open>
  The DuckDB engine is outside the repository. What the workers see of it:
  \<^item> \<open>connect_error path\<close>: the message of the exception that opening the database file
    \<open>path\<close> raises, if it does (an in-memory connection always opens);
  \<^item> \<open>exec_error t q\<close>: the message of the exception that \<open>conn.execute(q)\<close> raises, if it
    does, when the worker has \<open>t\<close> events behind it;
  \<^item> \<open>commit_error\<close>: the same for \<open>conn.commit()\<close>;
  \<^item> the rows the queries return: the schema of the remote dataset, the row count
    and the schema of the materialized table, the average the sample query computes
    (\<open>None\<close> is SQL NULL), the key/value metadata of the file, and the row of the
    JSON path query on a temporary table holding a given text (\<open>Inl\<close> when the
    engine raises on that text).
  The average is a finite double, given as the rational number it denotes.
\<close>

datatype blob = Utf8 string | Invalid_utf8

record engine =
  connect_error :: "string \<Rightarrow> string option"
  exec_error :: "nat \<Rightarrow> string \<Rightarrow> string option"
  commit_error :: "string option"
  describe_source :: schema
  count_rows :: int
  describe_table :: schema
  avg_feature_size :: "rat option"
  kv_metadata :: "(blob \<times> blob) list"
  bbox_path :: "string \<Rightarrow> string + string option option"

definition connect :: "engine \<Rightarrow> string option \<Rightarrow> ('s, 'r, unit) action" where
  "connect eng database tr =
     (tr @ [Connect database],
      case database of
        None \<Rightarrow> Next ()
      | Some path \<Rightarrow> (case connect_error eng path of Some e \<Rightarrow> Raise e | None \<Rightarrow> Next ()))"

definition execute :: "engine \<Rightarrow> string \<Rightarrow> ('s, 'r, unit) action" where
  "execute eng q tr =
     (tr @ [Execute q],
      case exec_error eng (length tr) q of Some e \<Rightarrow> Raise e | None \<Rightarrow> Next ())"

definition commit :: "engine \<Rightarrow> ('s, 'r, unit) action" where
  "commit eng tr =
     (tr @ [Commit], case commit_error eng of Some e \<Rightarrow> Raise e | None \<Rightarrow> Next ())"

section \<open>\<open>Worker\<close> (utils.py)\<close>

datatype worker_signal =
    Progress string
  | Error string
  | Info string
  | LoadLayer string
  | Finished
  | FileSizeWarning pyfloat

text \<open>
  The fields of a \<open>Worker\<close>. \<open>bbox_column\<close> is what
  \<open>validation_results.get('bbox_column')\<close> gives. The flag \<open>killed\<close> is \<open>False\<close> at
  construction and set by \<open>kill()\<close> from the GUI thread while \<open>run\<close> executes:
  \<open>kill_after = Some n\<close> says that \<open>kill()\<close> runs when the worker has \<open>n\<close> events behind
  it, \<open>None\<close> that it never runs.
\<close>

record worker =
  dataset_url :: string
  output_file :: string
  bbox_column :: "string option"
  size_warning_accepted :: bool
  kill_after :: "nat option"

definition killed :: "worker \<Rightarrow> 's trace \<Rightarrow> bool" where
  "killed w tr = (case kill_after w of None \<Rightarrow> False | Some n \<Rightarrow> n \<le> length tr)"

definition schema_query :: "string \<Rightarrow> string" where
  "schema_query url = ''DESCRIBE SELECT * FROM read_parquet('' @ apos @ url @ apos @ '')''"

definition count_query :: string where
  "count_query = ''SELECT COUNT(*) FROM '' @ table_name"

definition drop_query :: string where
  "drop_query = ''DROP TABLE IF EXISTS '' @ table_name"

definition no_data_message :: string where
  "no_data_message = ''No data found in the requested area. Check that your map extent overlaps with the data and/or expand your map extent.''"

definition duckdb_saved_message :: string where
  "duckdb_saved_message = ''Data has been successfully saved to DuckDB database.\<newline>\<newline>Note: QGIS does not currently support loading DuckDB files directly.''"

subsection \<open>\<open>Worker.estimate_file_size\<close>\<close>

definition property_args :: "schema \<Rightarrow> string list" where
  "property_args cols =
     map (\<lambda>col. apos @ fst col @ apos @ '', COALESCE(CAST('' @ fst col @ '' AS VARCHAR), 'null')'')
       (filter (\<lambda>col. fst col \<noteq> ''geometry'') cols)"

definition sample_query :: "int \<Rightarrow> schema \<Rightarrow> string" where
  "sample_query sample_size cols =
     ''\<newline>                    WITH sample AS ('' @
     ''\<newline>                        SELECT * FROM '' @ table_name @ '' LIMIT '' @ str_int sample_size @
     ''\<newline>                    )'' @
     ''\<newline>                    SELECT AVG(LENGTH('' @
     ''\<newline>                        json_object('' @
     ''\<newline>                            'type', 'Feature','' @
     ''\<newline>                            'geometry', ST_AsGeoJSON(geometry),'' @
     ''\<newline>                            'properties', json_object('' @
     ''\<newline>                                '' @ join '', '' (property_args cols) @
     ''\<newline>                            )'' @
     ''\<newline>                        )::VARCHAR'' @
     ''\<newline>                    )) as avg_feature_size'' @
     ''\<newline>                    FROM sample;'' @
     ''\<newline>                ''"

text \<open>
  An \<open>int\<close> operand of a float operation is converted to the nearest double first;
  Python raises \<open>OverflowError\<close> when that double would be an infinity.
\<close>

definition float_of_int :: "int \<Rightarrow> ('s, 'r, rat) action" where
  "float_of_int n =
     (case round_double (of_int n) of
        Fin r \<Rightarrow> proceed r
      | _ \<Rightarrow> raise ''int too large to convert to float'')"

text \<open>
  The body of the \<open>try\<close>. The table is described while the f-string of the sample query
  is built, so before the sample query runs. The average is a float (\<open>None\<close> for NULL),
  the row count an \<open>int\<close>: \<open>row_count * avg_feature_size\<close>, the two sums and the division
  are float operations, each rounded.
\<close>

definition estimate_body :: "engine \<Rightarrow> ('s, pyfloat, unit) action" where
  "estimate_body eng =
     andthen (execute eng count_query) (\<lambda>_.
       let row_count = count_rows eng;
           sample_size = min 100 row_count
       in if sample_size > 0 then
            andthen (execute eng (''DESCRIBE '' @ table_name)) (\<lambda>_.
            andthen (execute eng (sample_query sample_size (describe_table eng))) (\<lambda>_.
              case avg_feature_size eng of
                Some avg \<Rightarrow>
                  if avg \<noteq> 0 then
                    (let collection_overhead = 50;
                         comma_overhead = row_count - 1
                     in andthen (float_of_int row_count) (\<lambda>n.
                          let with_collection =
                                float_add (float_mul n avg) collection_overhead
                          in andthen (float_of_int comma_overhead) (\<lambda>c.
                               let total_estimated_bytes = float_add with_collection c
                               in returns (float_div total_estimated_bytes (1024 * 1024)))))
                  else returns (Fin 0)
              | None \<Rightarrow> returns (Fin 0)))
          else returns (Fin 0))"

text \<open>The whole method: an exception in the body makes it return 0.\<close>

definition estimate_file_size :: "engine \<Rightarrow> ('s, 'r, pyfloat) action" where
  "estimate_file_size eng tr =
     (case estimate_body eng tr of
        (tr', Return mb) \<Rightarrow> (tr', Next mb)
      | (tr', _) \<Rightarrow> (tr', Next (Fin 0)))"

subsection \<open>\<open>Worker.run\<close>\<close>

text \<open>
  The coordinate transform and the first, in-memory \<open>duckdb.connect()\<close> come before the
  \<open>try\<close>; the model takes the transformed extent \<open>bbox\<close> as given.

  Lines 98 to 115 of the \<open>try\<close>: up to the schema of the remote dataset. The local
  variable \<open>table_name\<close> is assigned only after these.
\<close>

definition run_connect :: "engine \<Rightarrow> worker \<Rightarrow> (worker_signal, unit, schema) action" where
  "run_connect eng w =
     andthen (emit (Progress ''Loading spatial extension...'')) (\<lambda>_.
     andthen (connect eng (if endswith (lower (output_file w)) ''.duckdb''
                           then Some (output_file w) else None)) (\<lambda>_.
     andthen (execute eng ''INSTALL httpfs;'') (\<lambda>_.
     andthen (execute eng ''INSTALL spatial;'') (\<lambda>_.
     andthen (execute eng ''LOAD httpfs;'') (\<lambda>_.
     andthen (execute eng ''LOAD spatial;'') (\<lambda>_.
     andthen (execute eng (schema_query (dataset_url w))) (\<lambda>_.
     proceed (describe_source eng))))))))"

text \<open>Lines 199 to 214: the options of the COPY statement; \<open>None\<close> is the final \<open>else\<close>.\<close>

definition copy_query :: "string \<Rightarrow> string" where
  "copy_query path = ''COPY '' @ table_name @ '' TO '' @ apos @ path @ apos"

definition format_options :: "string \<Rightarrow> string \<Rightarrow> string option" where
  "format_options ext path =
     (if ext = ''parquet'' then
        Some ''(FORMAT 'parquet', COMPRESSION 'ZSTD');''
      else if endswith path ''.gpkg'' then
        Some ''(FORMAT GDAL, DRIVER 'GPKG', SRS 'EPSG:4326');''
      else if endswith path ''.fgb'' then
        Some ''(FORMAT GDAL, DRIVER 'FlatGeobuf', SRS 'EPSG:4326');''
      else if endswith path ''.geojson'' then
        Some ''(FORMAT GDAL, DRIVER 'GeoJSON', SRS 'EPSG:4326');''
      else None)"

definition file_extension :: "string \<Rightarrow> string" where
  "file_extension path = split_last (CHR ''.'') (lower path)"

text \<open>Lines 178 to 218: the branch on the destination.\<close>

definition export_file :: "engine \<Rightarrow> worker \<Rightarrow> (worker_signal, unit, unit) action" where
  "export_file eng w =
     (if file_extension (output_file w) = ''duckdb'' then
        andthen (emit (Progress ''Saving to DuckDB database...'')) (\<lambda>_.
        andthen (commit eng) (\<lambda>_.
        (\<lambda>tr. if \<not> killed w tr then emit (Info duckdb_saved_message) tr else proceed () tr)))
      else
        andthen (if endswith (lower (output_file w)) ''.geojson'' then
                   andthen (estimate_file_size eng) (\<lambda>estimated_size.
                     if float_gt estimated_size 4096 \<and> \<not> size_warning_accepted w then
                       andthen (emit (FileSizeWarning estimated_size)) (\<lambda>_. returns ())
                     else proceed ())
                 else proceed ()) (\<lambda>_.
        andthen (emit (Progress (''Exporting data to '' @ upper (file_extension (output_file w))
                                   @ ''...''))) (\<lambda>_.
        case format_options (file_extension (output_file w)) (output_file w) of
          None \<Rightarrow> andthen (emit (Error ''Unsupported file format.'')) (\<lambda>_. returns ())
        | Some opts \<Rightarrow> execute eng (copy_query (output_file w) @ opts))))"

text \<open>Lines 220 to 231.\<close>

definition report_success :: "worker \<Rightarrow> (worker_signal, unit, unit) action" where
  "report_success w tr =
     (if killed w tr then returns () tr
      else if \<not> killed w tr then
        andthen (if endswith (lower (output_file w)) ''.duckdb''
                 then emit (Info duckdb_saved_message)
                 else emit (LoadLayer (output_file w))) (\<lambda>_.
        emit Finished) tr
      else proceed () tr)"

text \<open>Lines 117 to 231: from the assignment of \<open>table_name\<close> to the end of the \<open>try\<close>.\<close>

definition run_export :: "engine \<Rightarrow> worker \<Rightarrow> rect \<Rightarrow> schema \<Rightarrow> (worker_signal, unit, unit) action" where
  "run_export eng w bbox schema_result =
     andthen (emit (Progress ''Preparing query...'')) (\<lambda>_.
     andthen (emit (Progress ''Downloading data...'')) (\<lambda>_.
     andthen (execute eng
                (base_query (select_query (dataset_url w) (output_file w) schema_result)
                   (dataset_url w) (where_clause (bbox_column w) bbox))) (\<lambda>_.
     andthen (execute eng count_query) (\<lambda>_.
     if count_rows eng = 0 then
       andthen (emit (Error no_data_message)) (\<lambda>_. returns ())
     else
       andthen (emit (Progress ''Processing data to requested format...'')) (\<lambda>_.
       andthen (export_file eng w) (\<lambda>_.
       report_success w))))))"

text \<open>The handler \<open>except Exception as e\<close>.\<close>

definition run_except :: "worker \<Rightarrow> string \<Rightarrow> worker_signal trace \<Rightarrow> worker_signal trace" where
  "run_except w e tr = (if \<not> killed w tr then tr @ [Emit (Error e)] else tr)"

text \<open>
  The \<open>finally\<close> block. The DROP statement sits in a \<open>try\<close> with a bare \<open>except: pass\<close>,
  so whatever it raises is dropped; when \<open>table_name\<close> was never assigned, building the
  statement raises \<open>NameError\<close> and nothing is sent to the engine.
\<close>

definition run_finally :: "worker \<Rightarrow> bool \<Rightarrow> worker_signal trace \<Rightarrow> worker_signal trace" where
  "run_finally w table_name_bound tr =
     (if \<not> endswith (lower (output_file w)) ''.duckdb'' \<and> table_name_bound
      then tr @ [Execute drop_query] else tr) @ [Close]"

definition Worker_run :: "engine \<Rightarrow> worker \<Rightarrow> rect \<Rightarrow> worker_signal trace" where
  "Worker_run eng w bbox =
     (case run_connect eng w [Emit (Progress ''Connecting to database...''), Connect None] of
        (tr, Raise e) \<Rightarrow> run_finally w False (run_except w e tr)
      | (tr, Return _) \<Rightarrow> run_finally w False tr
      | (tr, Next schema_result) \<Rightarrow>
          (case run_export eng w bbox schema_result tr of
             (tr', Raise e) \<Rightarrow> run_finally w True (run_except w e tr')
           | (tr', _) \<Rightarrow> run_finally w True tr'))"

section \<open>\<open>Worker\<close> (qgis_plugin_gpq_downloader.py)\<close>

text \<open>
  The plugin module has its own copy of \<open>Worker\<close>, with the same signals apart from
  \<open>file_size_warning\<close> and no \<open>size_warning_accepted\<close> field.
\<close>

definition plugin_no_data_message :: string where
  "plugin_no_data_message = ''No data found in the requested area. Check that your map extent overlaps with the data and/or expand your map extent. Skipping to next dataset if available.''"

definition plugin_format_options :: "string \<Rightarrow> string \<Rightarrow> string option" where
  "plugin_format_options ext path =
     (if ext = ''parquet'' then
        Some ''(FORMAT 'parquet', COMPRESSION 'ZSTD');''
      else if endswith path ''.gpkg'' then
        Some ''(FORMAT GDAL, DRIVER 'GPKG');''
      else if endswith path ''.fgb'' then
        Some ''(FORMAT GDAL, DRIVER 'FlatGeobuf', SRS 'EPSG:4326');''
      else None)"

text \<open>
  In the final \<open>else\<close> (line 281) the error is emitted and control goes on to
  \<open>print(copy_query + format_options)\<close> with \<open>format_options\<close> unassigned, which raises
  \<open>UnboundLocalError\<close>. The text is that of Python 3.11 and later.
\<close>

definition unbound_format_options :: string where
  "unbound_format_options =
     ''cannot access local variable 'format_options' where it is not associated with a value''"

definition plugin_export_file :: "engine \<Rightarrow> worker \<Rightarrow> (worker_signal, unit, unit) action" where
  "plugin_export_file eng w =
     (if file_extension (output_file w) = ''duckdb'' then
        andthen (commit eng) (\<lambda>_.
        (\<lambda>tr. if \<not> killed w tr then emit (Info duckdb_saved_message) tr else proceed () tr))
      else
        (case plugin_format_options (file_extension (output_file w)) (output_file w) of
           None \<Rightarrow> andthen (emit (Error ''Unsupported file format.'')) (\<lambda>_.
                     raise unbound_format_options)
         | Some opts \<Rightarrow> execute eng (copy_query (output_file w) @ opts)))"

definition plugin_run_export :: "engine \<Rightarrow> worker \<Rightarrow> rect \<Rightarrow> schema \<Rightarrow> (worker_signal, unit, unit) action" where
  "plugin_run_export eng w bbox schema_result =
     andthen (emit (Progress ''Preparing query...'')) (\<lambda>_.
     andthen (emit (Progress ''Downloading data...'')) (\<lambda>_.
     andthen (execute eng
                (plugin_base_query (plugin_select_query (dataset_url w) (output_file w) schema_result)
                   (dataset_url w) (plugin_where_clause (bbox_column w) bbox))) (\<lambda>_.
     andthen (execute eng count_query) (\<lambda>_.
     if count_rows eng = 0 then
       andthen (emit (Info plugin_no_data_message)) (\<lambda>_.
       andthen (emit Finished) (\<lambda>_. returns ()))
     else
       andthen (emit (Progress ''Processing data to requested format...'')) (\<lambda>_.
       andthen (plugin_export_file eng w) (\<lambda>_.
       report_success w))))))"

text \<open>The inner handler, lines 301 to 309.\<close>

definition plugin_run_except :: "worker \<Rightarrow> string \<Rightarrow> worker_signal trace \<Rightarrow> worker_signal trace" where
  "plugin_run_except w e tr =
     (if \<not> killed w tr then
        (if contains ''No data found'' e then
           tr @ [Emit (Info (''No data found in the requested area for '' @ dataset_url w
                              @ ''. Skipping to next dataset if available.'')),
                 Emit Finished]
         else tr @ [Emit (Error e)])
      else tr)"

text \<open>
  The outer \<open>try\<close> of the plugin's \<open>run\<close> only catches what the coordinate transform, the
  first connection or the \<open>finally\<close> block raise, none of which the model lets fail.
\<close>

definition plugin_Worker_run :: "engine \<Rightarrow> worker \<Rightarrow> rect \<Rightarrow> worker_signal trace" where
  "plugin_Worker_run eng w bbox =
     (case run_connect eng w [Emit (Progress ''Connecting to database...''), Connect None] of
        (tr, Raise e) \<Rightarrow> run_finally w False (plugin_run_except w e tr)
      | (tr, Return _) \<Rightarrow> run_finally w False tr
      | (tr, Next schema_result) \<Rightarrow>
          (case plugin_run_export eng w bbox schema_result tr of
             (tr', Raise e) \<Rightarrow> run_finally w True (plugin_run_except w e tr')
           | (tr', _) \<Rightarrow> run_finally w True tr'))"

section \<open>\<open>ValidationWorker\<close>\<close>

text \<open>
  The class is the same in utils.py and in the plugin module, apart from where the
  preset catalogue comes from: utils.py loads it from \<open>data/presets.json\<close>, the plugin
  module has it as the constant \<open>PRESET_DATASETS\<close>. The catalogue is a parameter here.
\<close>

subsection \<open>The preset catalogue and \<open>needs_validation\<close>\<close>

text \<open>
  Of a catalogue entry, \<open>needs_validation\<close> reads three keys. \<open>url\<close> and \<open>url_template\<close> are
  \<open>None\<close> when the key is missing or does not hold a string; \<open>needs_validation_entry\<close> is
  \<open>None\<close> when the key is missing. Dictionaries iterate in insertion order.
\<close>

record preset =
  url :: "string option"
  url_template :: "string option"
  needs_validation_entry :: "bool option"

type_synonym presets = "(string \<times> (string \<times> preset) list) list"

fun match_datasets :: "string \<Rightarrow> (string \<times> preset) list \<Rightarrow> bool option" where
  "match_datasets ds_url [] = None"
| "match_datasets ds_url ((name, dataset) # rest) =
     (if (case url dataset of Some u \<Rightarrow> contains u ds_url | None \<Rightarrow> False) then
        Some (case needs_validation_entry dataset of Some b \<Rightarrow> b | None \<Rightarrow> True)
      else if (case url_template dataset of
                 Some t \<Rightarrow> contains (split_first (CHR ''{'') t) ds_url
               | None \<Rightarrow> False) then
        Some (case needs_validation_entry dataset of Some b \<Rightarrow> b | None \<Rightarrow> True)
      else match_datasets ds_url rest)"

fun match_sources :: "string \<Rightarrow> presets \<Rightarrow> bool option" where
  "match_sources ds_url [] = None"
| "match_sources ds_url ((name, source) # rest) =
     (case match_datasets ds_url source of
        Some r \<Rightarrow> Some r
      | None \<Rightarrow> match_sources ds_url rest)"

definition needs_validation :: "presets \<Rightarrow> string \<Rightarrow> bool" where
  "needs_validation catalogue ds_url =
     (case match_sources ds_url catalogue of Some r \<Rightarrow> r | None \<Rightarrow> True)"

subsection \<open>Signals and the result dictionary\<close>

datatype pyval = PNone | PBool bool | PStr string | PSchema schema

type_synonym dict = "(string \<times> pyval) list"

fun dict_set :: "dict \<Rightarrow> string \<Rightarrow> pyval \<Rightarrow> dict" where
  "dict_set [] k v = [(k, v)]"
| "dict_set ((k', v') # d) k v = (if k' = k then (k, v) # d else (k', v') # dict_set d k v)"

definition dict_get :: "dict \<Rightarrow> string \<Rightarrow> pyval option" where
  "dict_get d k = map_of d k"

definition py_truthy :: "pyval \<Rightarrow> bool" where
  "py_truthy v =
     (case v of PNone \<Rightarrow> False | PBool b \<Rightarrow> b | PStr s \<Rightarrow> s \<noteq> [] | PSchema rows \<Rightarrow> rows \<noteq> [])"

datatype validation_signal =
    VProgress string
  | VFinished bool string dict
  | NeedsBboxWarning

subsection \<open>\<open>ValidationWorker.check_bbox_metadata\<close>\<close>

definition metadata_query :: "string \<Rightarrow> string" where
  "metadata_query ds_url =
     ''SELECT key, value FROM parquet_kv_metadata('' @ apos @ ds_url @ apos @ '')''"

definition bbox_path_query :: string where
  "bbox_path_query =
     ''\<newline>                        SELECT json_str->'$.columns.geometry.covering.bbox.xmin[0]' as bbox_column'' @
     ''\<newline>                        FROM temp_json'' @
     ''\<newline>                    ''"

text \<open>
  \<open>value.decode()\<close> raises \<open>UnicodeDecodeError\<close> on bytes that are not UTF-8; its message
  is only printed.
\<close>

definition decode :: "blob \<Rightarrow> ('s, 'r, string) action" where
  "decode v = (case v of Utf8 s \<Rightarrow> proceed s | Invalid_utf8 \<Rightarrow> raise ''invalid utf-8'')"

definition fetch_bbox_path :: "engine \<Rightarrow> string \<Rightarrow> ('s, 'r, string option option) action" where
  "fetch_bbox_path eng decoded_value =
     andthen (execute eng bbox_path_query) (\<lambda>_.
       case bbox_path eng decoded_value of Inl e \<Rightarrow> raise e | Inr row \<Rightarrow> proceed row)"

text \<open>The body of the \<open>try\<close> for one \<open>geo\<close> entry; \<open>Return\<close> is its \<open>return bbox_col\<close>.\<close>

definition parse_geo :: "engine \<Rightarrow> blob \<Rightarrow> ('s, string, unit) action" where
  "parse_geo eng v =
     andthen (decode v) (\<lambda>decoded_value.
     andthen (execute eng ''INSTALL json;'') (\<lambda>_.
     andthen (execute eng ''LOAD json;'') (\<lambda>_.
     andthen (execute eng (''CREATE TEMP TABLE temp_json AS SELECT '' @ apos @ decoded_value
                            @ apos @ '' as json_str'')) (\<lambda>_.
     andthen (fetch_bbox_path eng decoded_value) (\<lambda>result.
       case result of
         Some (Some r) \<Rightarrow> if r \<noteq> [] then returns (strip (CHR 0x22) r) else proceed ()
       | _ \<Rightarrow> proceed ())))))"

text \<open>
  The loop over the metadata rows. For a \<open>geo\<close> entry the \<open>except\<close> clause swallows what
  the body raises; the \<open>finally\<close> clause drops the temporary table, outside any handler,
  before the \<open>return\<close> takes effect or the loop goes on.
\<close>

fun check_rows :: "engine \<Rightarrow> (blob \<times> blob) list \<Rightarrow> ('s, 'r, string option) action" where
  "check_rows eng [] tr = (tr, Next None)"
| "check_rows eng ((k, v) # rows) tr =
     (if k = Utf8 ''geo'' then
        (case parse_geo eng v tr of
           (tr1, outcome) \<Rightarrow>
             (case (execute eng ''DROP TABLE IF EXISTS temp_json''
                      :: ('s, unit, unit) action) tr1 of
                (tr2, Raise e) \<Rightarrow> (tr2, Raise e)
              | (tr2, _) \<Rightarrow>
                  (case outcome of
                     Return bbox_col \<Rightarrow> (tr2, Next (Some bbox_col))
                   | _ \<Rightarrow> check_rows eng rows tr2)))
      else check_rows eng rows tr)"

definition check_bbox_metadata :: "engine \<Rightarrow> string \<Rightarrow> ('s, 'r, string option) action" where
  "check_bbox_metadata eng ds_url =
     andthen (execute eng (metadata_query ds_url)) (\<lambda>_. check_rows eng (kv_metadata eng))"

subsection \<open>\<open>ValidationWorker.run\<close>\<close>

definition has_bbox_struct :: "schema \<Rightarrow> bool" where
  "has_bbox_struct schema_result =
     list_ex (\<lambda>row. lower (fst row) = ''bbox'' \<and> contains ''struct'' (lower (snd row)))
       schema_result"

text \<open>Lines 412 to 431: the result dictionary after the two checks.\<close>

definition find_bbox :: "engine \<Rightarrow> string \<Rightarrow> schema \<Rightarrow> (validation_signal, unit, dict) action" where
  "find_bbox eng ds_url schema_result =
     (let validation_results =
            [(''schema'', PSchema schema_result), (''has_bbox'', PBool False),
             (''bbox_column'', PNone)]
      in if has_bbox_struct schema_result then
           proceed (dict_set (dict_set validation_results ''has_bbox'' (PBool True))
                      ''bbox_column'' (PStr ''bbox''))
         else
           andthen (check_bbox_metadata eng ds_url) (\<lambda>bbox_col.
             if truthy bbox_col then
               proceed (dict_set (dict_set validation_results ''has_bbox'' (PBool True))
                          ''bbox_column'' (PStr (the bbox_col)))
             else proceed validation_results))"

definition validate :: "presets \<Rightarrow> engine \<Rightarrow> string \<Rightarrow> (validation_signal, unit, unit) action" where
  "validate catalogue eng ds_url =
     andthen (emit (VProgress ''Connecting to data source...'')) (\<lambda>_.
     andthen (connect eng None) (\<lambda>_.
     andthen (execute eng ''INSTALL spatial;'') (\<lambda>_.
     andthen (execute eng ''LOAD spatial;'') (\<lambda>_.
     andthen (execute eng ''INSTALL httpfs;'') (\<lambda>_.
     andthen (execute eng ''LOAD httpfs;'') (\<lambda>_.
     if \<not> needs_validation catalogue ds_url then
       andthen (emit (VFinished True ''Validation successful''
                        [(''has_bbox'', PBool True), (''bbox_column'', PStr ''bbox'')])) (\<lambda>_.
       returns ())
     else
       andthen (emit (VProgress ''Checking data format...'')) (\<lambda>_.
       andthen (execute eng (schema_query ds_url)) (\<lambda>_.
       andthen (find_bbox eng ds_url (describe_source eng)) (\<lambda>validation_results.
       if \<not> (case dict_get validation_results ''has_bbox'' of
                 Some v \<Rightarrow> py_truthy v | None \<Rightarrow> False) then
         andthen (emit NeedsBboxWarning) (\<lambda>_. returns ())
       else emit (VFinished True ''Validation successful'' validation_results))))))))))"

text \<open>The handler emits the failure; the \<open>finally\<close> clause closes the connection.\<close>

definition ValidationWorker_run :: "presets \<Rightarrow> engine \<Rightarrow> string \<Rightarrow> validation_signal trace" where
  "ValidationWorker_run catalogue eng ds_url =
     (case validate catalogue eng ds_url [] of
        (tr, Raise e) \<Rightarrow>
          tr @ [Emit (VFinished False (''Error validating source: '' @ e) []), Close]
      | (tr, _) \<Rightarrow> tr @ [Close])"

subsection \<open>The plugin module's catalogue\<close>

text \<open>
  \<open>PRESET_DATASETS\<close> of qgis_plugin_gpq_downloader.py (lines 20 to 106), with the three keys
  \<open>needs_validation\<close> reads.
\<close>

definition PRESET_DATASETS :: presets where
  "PRESET_DATASETS =
    [
     (''overture'',
       [
        (''buildings'',
         \<lparr>url = None,
          url_template = Some ''s3://overturemaps-us-west-2/release/2025-01-22.0/theme=buildings/type=building/*'',
          needs_validation_entry = Some False\<rparr>),
        (''places'',
         \<lparr>url = None,
          url_template = Some ''s3://overturemaps-us-west-2/release/2025-01-22.0/theme=places/type=place/*'',
          needs_validation_entry = Some False\<rparr>),
        (''transportation'',
         \<lparr>url = None,
          url_template = Some ''s3://overturemaps-us-west-2/release/2025-01-22.0/theme=transportation/type=segment/*'',
          needs_validation_entry = Some False\<rparr>),
        (''addresses'',
         \<lparr>url = None,
          url_template = Some ''s3://overturemaps-us-west-2/release/2025-01-22.0/theme=addresses/type=*/*'',
          needs_validation_entry = Some False\<rparr>),
        (''base'',
         \<lparr>url = None,
          url_template = Some ''s3://overturemaps-us-west-2/release/2025-01-22.0/theme=base/type={subtype}/*'',
          needs_validation_entry = Some False\<rparr>),
        (''divisions'',
         \<lparr>url = None,
          url_template = Some ''s3://overturemaps-us-west-2/release/2025-01-22.0/theme=divisions/type=division_area/*'',
          needs_validation_entry = Some False\<rparr>)]),
     (''source_cooperative'',
       [
        (''planet_eu_boundaries'',
         \<lparr>url = Some ''https://data.source.coop/planet/eu-field-boundaries/field_boundaries.parquet'',
          url_template = None,
          needs_validation_entry = Some False\<rparr>),
        (''usda_crop'',
         \<lparr>url = Some ''https://data.source.coop/fiboa/us-usda-cropland/us_usda_cropland.parquet'',
          url_template = None,
          needs_validation_entry = Some False\<rparr>),
        (''ca_crop'',
         \<lparr>url = Some ''https://data.source.coop/fiboa/us-ca-scm/us_ca_scm.parquet'',
          url_template = None,
          needs_validation_entry = Some False\<rparr>),
        (''vida_buildings'',
         \<lparr>url = Some ''s3://us-west-2.opendata.source.coop/vida/google-microsoft-osm-open-buildings/geoparquet/by_country/*/*.parquet'',
          url_template = None,
          needs_validation_entry = Some False\<rparr>),
        (''us_structures'',
         \<lparr>url = Some ''s3://us-west-2.opendata.source.coop/wherobots/usa-structures/geoparquet/*.parquet'',
          url_template = None,
          needs_validation_entry = Some False\<rparr>),
        (''fsq_places_fused'',
         \<lparr>url = Some ''s3://us-west-2.opendata.source.coop/fused/fsq-os-places/2025-01-10/places/*.parquet'',
          url_template = None,
          needs_validation_entry = Some False\<rparr>),
        (''nhd_flowlines'',
         \<lparr>url = Some ''https://data.source.coop/cholmes/nhd/NHDFlowline.parquet'',
          url_template = None,
          needs_validation_entry = Some True\<rparr>)]),
     (''other'',
       [
        (''foursquare_places'',
         \<lparr>url = Some ''hf://datasets/foursquare/fsq-os-places/release/dt=2025-01-10/places/parquet/*.parquet'',
          url_template = None,
          needs_validation_entry = Some False\<rparr>)])]"

definition plugin_ValidationWorker_run :: "engine \<Rightarrow> string \<Rightarrow> validation_signal trace" where
  "plugin_ValidationWorker_run eng ds_url = ValidationWorker_run PRESET_DATASETS eng ds_url"

section \<open>Observations on queries and traces\<close>

text \<open>
  The properties below are stated on what can be observed of a query text and of a run.
  \<open>sql_words\<close> splits a text at spaces and line breaks, as \<open>str.split()\<close> does, so that
  two texts that differ only in their layout have the same words.
\<close>

definition is_space :: "char \<Rightarrow> bool" where
  "is_space c = (c = CHR '' '' \<or> c = CHR ''\<newline>'')"

function sql_words :: "string \<Rightarrow> string list" where
  "sql_words [] = []"
| "sql_words (c # s) =
     (if is_space c then sql_words s
      else (c # takeWhile (\<lambda>x. \<not> is_space x) s) # sql_words (dropWhile (\<lambda>x. \<not> is_space x) s))"
  by pat_completeness auto
termination
  by (relation "measure length") (auto simp: length_dropWhile_le less_Suc_eq_le)

definition spaceless :: "string \<Rightarrow> bool" where
  "spaceless s = list_all (\<lambda>c. \<not> is_space c) s"

text \<open>
  A formatted float is never empty and has no blank in it.
\<close>

definition float_text :: "string \<Rightarrow> bool" where
  "float_text s = (s \<noteq> [] \<and> spaceless s)"

definition formatted :: "rect \<Rightarrow> bool" where
  "formatted b = (float_text (xMinimum b) \<and> float_text (yMinimum b) \<and> float_text (xMaximum b) \<and> float_text (yMaximum b))"

text \<open>
  A statement succeeds when the engine raises on it at no time. The signals and the
  statements of a run are read off its trace, in order.
\<close>

definition succeeds :: "engine \<Rightarrow> string \<Rightarrow> bool" where
  "succeeds eng q = (\<forall>t. exec_error eng t q = None)"

fun signals :: "'s trace \<Rightarrow> 's list" where
  "signals [] = []"
| "signals (Emit s # tr) = s # signals tr"
| "signals (_ # tr) = signals tr"

fun executed :: "'s trace \<Rightarrow> string list" where
  "executed [] = []"
| "executed (Execute q # tr) = q # executed tr"
| "executed (_ # tr) = executed tr"

text \<open>
  The statements \<open>Worker.run\<close> sends up to the row count, in the two copies.
\<close>

definition download_statements :: "worker \<Rightarrow> rect \<Rightarrow> schema \<Rightarrow> string list" where
  "download_statements w bbox schema_result =
     [''INSTALL httpfs;'', ''INSTALL spatial;'', ''LOAD httpfs;'', ''LOAD spatial;'',
      schema_query (dataset_url w),
      base_query (select_query (dataset_url w) (output_file w) schema_result)
        (dataset_url w) (where_clause (bbox_column w) bbox),
      count_query]"

definition plugin_download_statements :: "worker \<Rightarrow> rect \<Rightarrow> schema \<Rightarrow> string list" where
  "plugin_download_statements w bbox schema_result =
     [''INSTALL httpfs;'', ''INSTALL spatial;'', ''LOAD httpfs;'', ''LOAD spatial;'',
      schema_query (dataset_url w),
      plugin_base_query (plugin_select_query (dataset_url w) (output_file w) schema_result)
        (dataset_url w) (plugin_where_clause (bbox_column w) bbox),
      count_query]"

text \<open>
  A geo metadata value is malformed when it does not decode, or when the engine raises
  on the JSON path query over its text.
\<close>

definition malformed :: "engine \<Rightarrow> blob \<Rightarrow> bool" where
  "malformed eng v =
     (case v of
        Invalid_utf8 \<Rightarrow> True
      | Utf8 s \<Rightarrow> (case bbox_path eng s of Inl _ \<Rightarrow> True | Inr _ \<Rightarrow> False))"

text \<open>
  A geo metadata value is usable when its text decodes and the JSON path query gives a
  text that is not empty once its quotes are stripped.
\<close>

definition usable :: "engine \<Rightarrow> blob \<Rightarrow> bool" where
  "usable eng v =
     (case v of
        Invalid_utf8 \<Rightarrow> False
      | Utf8 s \<Rightarrow>
          (case bbox_path eng s of
             Inr (Some (Some r)) \<Rightarrow> strip (CHR 0x22) r \<noteq> []
           | _ \<Rightarrow> False))"

text \<open>
  A number is a double when rounding leaves it as it is. The steps of the size estimate
  for \<open>n\<close> rows of average length \<open>a\<close> are the exact values of its operands and
  results, in order.
\<close>

definition exact_double :: "rat \<Rightarrow> bool" where
  "exact_double x = (round_double x = Fin x)"

definition estimate_steps :: "int \<Rightarrow> rat \<Rightarrow> rat list" where
  "estimate_steps n a =
     [of_int n, of_int n * a, of_int n * a + 50, of_int (n - 1),
      of_int n * a + 50 + of_int (n - 1),
      (of_int n * a + 50 + of_int (n - 1)) / 1048576]"

subsection \<open>Example inputs\<close>

text \<open>
  An engine that raises on nothing and holds 10000 rows whose sampled features average
  200 characters; a worker for the NHD flowlines dataset; the extent (0, 0, 10, 10).
\<close>

definition example_engine :: engine where
  "example_engine =
     \<lparr>connect_error = (\<lambda>_. None), exec_error = (\<lambda>_ _. None), commit_error = None,
      describe_source = [(''id'', ''VARCHAR''), (''names'', ''STRUCT(a VARCHAR)''),
                         (''geometry'', ''GEOMETRY'')],
      count_rows = 10000,
      describe_table = [(''id'', ''VARCHAR''), (''names'', ''JSON''), (''geometry'', ''GEOMETRY'')],
      avg_feature_size = Some 200,
      kv_metadata = [],
      bbox_path = (\<lambda>_. Inr (Some None))\<rparr>"

definition example_worker :: "string \<Rightarrow> worker" where
  "example_worker path =
     \<lparr>dataset_url = ''https://data.source.coop/cholmes/nhd/NHDFlowline.parquet'',
      output_file = path, bbox_column = Some ''bbox'', size_warning_accepted = False,
      kill_after = None\<rparr>"

definition example_extent :: rect where
  "example_extent = \<lparr>xMinimum = ''0.0'', yMinimum = ''0.0'', xMaximum = ''10.0'', yMaximum = ''10.0''\<rparr>"

text \<open>
  The same engine over a dataset with a \<open>bbox\<close> struct column, and over a dataset whose
  two \<open>geo\<close> metadata values are malformed: one is not UTF-8, the engine raises on the
  other.
\<close>

definition bbox_engine :: engine where
  "bbox_engine =
     example_engine\<lparr>describe_source :=
       [(''id'', ''VARCHAR''),
        (''bbox'', ''STRUCT(xmin DOUBLE, ymin DOUBLE, xmax DOUBLE, ymax DOUBLE)''),
        (''geometry'', ''GEOMETRY'')]\<rparr>"

definition malformed_engine :: engine where
  "malformed_engine =
     example_engine\<lparr>
       kv_metadata := [(Utf8 ''created_by'', Utf8 ''writer''), (Utf8 ''geo'', Invalid_utf8),
                       (Utf8 ''geo'', Utf8 ''{columns: '')],
       bbox_path := (\<lambda>s. if s = ''{columns: '' then Inl ''Malformed JSON'' else Inr (Some None))\<rparr>"

text \<open>
  The same engine over three rows whose average length is the double nearest to
  301/3, which Python prints as 100.33333333333333.
\<close>

definition rounding_engine :: engine where
  "rounding_engine =
     example_engine\<lparr>count_rows := 3,
                    avg_feature_size := Some (7060330665825621 / 70368744177664)\<rparr>"

section \<open>Properties of the query builder\<close>

lemma process_rows_map: "process_rows rows acc = acc @ map column_entry rows"
  by (induction rows arbitrary: acc) auto

lemma process_schema_columns_map: "process_schema_columns s = map column_entry s"
  by (simp add: process_schema_columns_def process_rows_map)

lemma sql_words_word:
  assumes "x \<noteq> []" "spaceless x"
  shows "sql_words (x @ s) = (x @ takeWhile (\<lambda>c. \<not> is_space c) s) # sql_words (dropWhile (\<lambda>c. \<not> is_space c) s)"
proof -
  obtain c cs where x: "x = c # cs" using assms(1) by (cases x) auto
  have all: "\<forall>y\<in>set cs. \<not> is_space y" and c: "\<not> is_space c"
    using assms(2) by (auto simp: x spaceless_def list_all_iff)
  show ?thesis
    using all c by (simp add: x takeWhile_append2 dropWhile_append2)
qed


lemmas words_simps = sql_words_word is_space_def spaceless_def list_all_iff takeWhile_append2 dropWhile_append2
  float_text_def formatted_def

text \<open>
  Claim C2. For an extent whose four coordinates are formatted floats: when a bbox column
  \<open>C\<close> was detected (a name that is not empty; here without blanks), the WHERE clause of
  both copies of \<open>Worker.run\<close> reads, layout aside,
  \<open>WHERE "C".xmin BETWEEN xmin AND xmax AND "C".ymin BETWEEN ymin AND ymax\<close>: only the
  minima of the column are tested, each against the range of the extent on its axis.
  When no bbox column was detected, the clause is \<open>ST_Intersects\<close> of the geometry with a
  polygon literal whose ring is the four corners of the extent and the first corner again.
\<close>

theorem where_clause_predicate:
  assumes "formatted b"
  shows \<open>(C \<noteq> [] \<and> spaceless C \<longrightarrow>
            sql_words (where_clause (Some C) b) =
              [''WHERE'', ''"'' @ C @ ''".xmin'', ''BETWEEN'', xMinimum b, ''AND'', xMaximum b,
               ''AND'', ''"'' @ C @ ''".ymin'', ''BETWEEN'', yMinimum b, ''AND'', yMaximum b]
          \<and> sql_words (plugin_where_clause (Some C) b) = sql_words (where_clause (Some C) b))
       \<and> (\<not> truthy c \<longrightarrow>
            sql_words (where_clause c b) =
              [''WHERE'', ''ST_Intersects('', ''geometry,'',
               ''ST_GeomFromText('POLYGON(('' @ xMinimum b, yMinimum b @ '','',
               xMaximum b, yMinimum b @ '','',
               xMaximum b, yMaximum b @ '','',
               xMinimum b, yMaximum b @ '','',
               xMinimum b, yMinimum b @ ''))')'', '')'']
          \<and> sql_words (plugin_where_clause c b) = sql_words (where_clause c b))\<close>
proof -
  have range: \<open>sql_words (where_clause (Some C) b) =
              [''WHERE'', ''"'' @ C @ ''".xmin'', ''BETWEEN'', xMinimum b, ''AND'', xMaximum b,
               ''AND'', ''"'' @ C @ ''".ymin'', ''BETWEEN'', yMinimum b, ''AND'', yMaximum b]\<close>
    and prange: \<open>sql_words (plugin_where_clause (Some C) b) =
              [''WHERE'', ''"'' @ C @ ''".xmin'', ''BETWEEN'', xMinimum b, ''AND'', xMaximum b,
               ''AND'', ''"'' @ C @ ''".ymin'', ''BETWEEN'', yMinimum b, ''AND'', yMaximum b]\<close>
    if "C \<noteq> []" "spaceless C"
    using that assms
    by (simp_all add: where_clause_def plugin_where_clause_def truthy_def words_simps)
  have poly: \<open>sql_words (where_clause c b) =
              [''WHERE'', ''ST_Intersects('', ''geometry,'',
               ''ST_GeomFromText('POLYGON(('' @ xMinimum b, yMinimum b @ '','',
               xMaximum b, yMinimum b @ '','',
               xMaximum b, yMaximum b @ '','',
               xMinimum b, yMaximum b @ '','',
               xMinimum b, yMinimum b @ ''))')'', '')'']\<close>
    and ppoly: \<open>sql_words (plugin_where_clause c b) =
              [''WHERE'', ''ST_Intersects('', ''geometry,'',
               ''ST_GeomFromText('POLYGON(('' @ xMinimum b, yMinimum b @ '','',
               xMaximum b, yMinimum b @ '','',
               xMaximum b, yMaximum b @ '','',
               xMinimum b, yMaximum b @ '','',
               xMinimum b, yMinimum b @ ''))')'', '')'']\<close>
    if "\<not> truthy c"
    using that assms
    by (simp_all add: where_clause_def plugin_where_clause_def words_simps)
  show ?thesis
    using range prange poly ppoly by simp
qed

theorem where_clause_predicate_witness:
  \<open>formatted \<lparr>xMinimum = ''0.0'', yMinimum = ''0.0'', xMaximum = ''10.0'', yMaximum = ''10.0''\<rparr>
   \<and> ''bbox'' \<noteq> [] \<and> spaceless ''bbox'' \<and> \<not> truthy None
   \<and> sql_words (where_clause (Some ''bbox'')
         \<lparr>xMinimum = ''0.0'', yMinimum = ''0.0'', xMaximum = ''10.0'', yMaximum = ''10.0''\<rparr>) =
       [''WHERE'', ''"bbox".xmin'', ''BETWEEN'', ''0.0'', ''AND'', ''10.0'',
        ''AND'', ''"bbox".ymin'', ''BETWEEN'', ''0.0'', ''AND'', ''10.0'']
   \<and> sql_words (plugin_where_clause (Some ''bbox'')
         \<lparr>xMinimum = ''0.0'', yMinimum = ''0.0'', xMaximum = ''10.0'', yMaximum = ''10.0''\<rparr>) =
       [''WHERE'', ''"bbox".xmin'', ''BETWEEN'', ''0.0'', ''AND'', ''10.0'',
        ''AND'', ''"bbox".ymin'', ''BETWEEN'', ''0.0'', ''AND'', ''10.0'']
   \<and> sql_words (where_clause None
         \<lparr>xMinimum = ''0.0'', yMinimum = ''0.0'', xMaximum = ''10.0'', yMaximum = ''10.0''\<rparr>) =
       [''WHERE'', ''ST_Intersects('', ''geometry,'', ''ST_GeomFromText('POLYGON((0.0'', ''0.0,'',
        ''10.0'', ''0.0,'', ''10.0'', ''10.0,'', ''0.0'', ''10.0,'', ''0.0'', ''0.0))')'', '')'']\<close>
proof -
  have f: "formatted \<lparr>xMinimum = ''0.0'', yMinimum = ''0.0'', xMaximum = ''10.0'', yMaximum = ''10.0''\<rparr>"
    by (simp add: formatted_def float_text_def spaceless_def is_space_def)
  have s: "''bbox'' \<noteq> [] \<and> spaceless ''bbox'' \<and> \<not> truthy None"
    by (simp add: spaceless_def is_space_def truthy_def)
  show ?thesis
    using where_clause_predicate [OF f, of "''bbox''" None] f s by simp
qed

text \<open>
  For a destination that ends in \<open>.parquet\<close>, in lower case, the SELECT list is
  \<open>SELECT *\<close>. For any other destination it is made of the entries of
  \<open>process_schema_columns\<close>, one per schema column and in schema order: \<open>TO_JSON\<close> of the
  column when its type names a struct or a map, \<open>array_to_string\<close> when it is a list type,
  a cast to \<open>INTEGER\<close> when it is \<open>UTINYINT\<close>, and the quoted column name itself otherwise.
\<close>

lemma select_list_entries:
  \<open>(endswith out ''.parquet'' \<longrightarrow> select_query u out s = ''SELECT *'')
   \<and> (\<not> endswith out ''.parquet'' \<longrightarrow>
        select_query u out s =
          (if contains ''overture'' u then ''SELECT "names"."primary" as name,'' else ''SELECT '')
          @ join '', '' (process_schema_columns s))
   \<and> length (process_schema_columns s) = length s
   \<and> (\<forall>i<length s.
        let name = fst (s ! i); ty = snd (s ! i); quoted = ''"'' @ name @ ''"'';
            entry = process_schema_columns s ! i
        in (contains ''STRUCT'' (upper ty) \<or> contains ''MAP'' (upper ty) \<longrightarrow>
              entry = ''TO_JSON('' @ quoted @ '') AS '' @ quoted)
         \<and> (\<not> contains ''STRUCT'' (upper ty) \<and> \<not> contains ''MAP'' (upper ty)
              \<and> contains ''[]'' ty \<longrightarrow>
              entry = ''array_to_string('' @ quoted @ '', '' @ apos @ '', '' @ apos @ '') AS '' @ quoted)
         \<and> (\<not> contains ''STRUCT'' (upper ty) \<and> \<not> contains ''MAP'' (upper ty)
              \<and> \<not> contains ''[]'' ty \<and> upper ty = ''UTINYINT'' \<longrightarrow>
              entry = ''CAST('' @ quoted @ '' AS INTEGER) AS '' @ quoted)
         \<and> (\<not> contains ''STRUCT'' (upper ty) \<and> \<not> contains ''MAP'' (upper ty)
              \<and> \<not> contains ''[]'' ty \<and> upper ty \<noteq> ''UTINYINT'' \<longrightarrow>
              entry = quoted))\<close>
proof -
  have sel: \<open>endswith out ''.parquet'' \<longrightarrow> select_query u out s = ''SELECT *''\<close>
    by (simp add: select_query_def)
  have sel': \<open>\<not> endswith out ''.parquet'' \<longrightarrow>
        select_query u out s =
          (if contains ''overture'' u then ''SELECT "names"."primary" as name,'' else ''SELECT '')
          @ join '', '' (process_schema_columns s)\<close>
    by (simp add: select_query_def Let_def)
  have len: "length (process_schema_columns s) = length s"
    by (simp add: process_schema_columns_map)
  have nth: "process_schema_columns s ! i = column_entry (s ! i)" if "i < length s" for i
    using that by (simp add: process_schema_columns_map)
  have no: "\<not> contains ''STRUCT'' ''UTINYINT''" "\<not> contains ''MAP'' ''UTINYINT''"
    by code_simp+
  show ?thesis
    using sel sel' len by (simp add: nth column_entry_def Let_def no)
qed

text \<open>
  Claim C8 at the destination \<open>OUT.PARQUET\<close>. The branch on the destination lower-cases
  the path, so the file is written as Parquet; the test before the SELECT list does not,
  so the list is the coerced one and not \<open>SELECT *\<close>, in both copies.
\<close>

theorem upper_case_parquet_coerced:
  \<open>file_extension ''OUT.PARQUET'' = ''parquet''
   \<and> format_options (file_extension ''OUT.PARQUET'') ''OUT.PARQUET'' =
       Some ''(FORMAT 'parquet', COMPRESSION 'ZSTD');''
   \<and> plugin_format_options (file_extension ''OUT.PARQUET'') ''OUT.PARQUET'' =
       Some ''(FORMAT 'parquet', COMPRESSION 'ZSTD');''
   \<and> select_query (dataset_url (example_worker ''OUT.PARQUET'')) ''OUT.PARQUET''
        (describe_source example_engine) =
       ''SELECT "id", TO_JSON("names") AS "names", "geometry"''
   \<and> plugin_select_query (dataset_url (example_worker ''OUT.PARQUET'')) ''OUT.PARQUET''
        (describe_source example_engine) =
       ''SELECT "id", TO_JSON("names") AS "names", "geometry"''
   \<and> executed (Worker_run example_engine (example_worker ''OUT.PARQUET'') example_extent) =
       download_statements (example_worker ''OUT.PARQUET'') example_extent
         (describe_source example_engine)
       @ [copy_query ''OUT.PARQUET'' @ ''(FORMAT 'parquet', COMPRESSION 'ZSTD');'', drop_query]\<close>
  by code_simp



text \<open>
  Claim C5, as stated, fails: for an Overture URL and a schema with a \<open>names\<close> column, a
  destination that ends in \<open>.parquet\<close> gets \<open>SELECT *\<close> from both copies, with no
  synthetic column.
\<close>

theorem synthetic_name_column_counterexample:
  \<open>contains ''overture'' ''s3://overturemaps-us-west-2/release/2025-01-22.0/theme=places/type=place/*''
   \<and> has_names_column [(''id'', ''VARCHAR''), (''names'', ''STRUCT(a VARCHAR)'')]
   \<and> select_query ''s3://overturemaps-us-west-2/release/2025-01-22.0/theme=places/type=place/*''
         ''places.parquet'' [(''id'', ''VARCHAR''), (''names'', ''STRUCT(a VARCHAR)'')] = ''SELECT *''
   \<and> plugin_select_query ''s3://overturemaps-us-west-2/release/2025-01-22.0/theme=places/type=place/*''
         ''places.parquet'' [(''id'', ''VARCHAR''), (''names'', ''STRUCT(a VARCHAR)'')] = ''SELECT *''
   \<and> ''SELECT *'' \<noteq>
       ''SELECT "names"."primary" as name,'' @ join '', ''
          (process_schema_columns [(''id'', ''VARCHAR''), (''names'', ''STRUCT(a VARCHAR)'')])\<close>
  by code_simp

lemma name_prefix_differs:
  \<open>''SELECT "names"."primary" as name,'' @ rest \<noteq> ''SELECT '' @ rest\<close>
proof
  assume \<open>''SELECT "names"."primary" as name,'' @ rest = ''SELECT '' @ rest\<close>
  then have \<open>length (''SELECT "names"."primary" as name,'' @ rest) = length (''SELECT '' @ rest)\<close>
    by (rule arg_cong)
  then show False by simp
qed

text \<open>
  Claim C5, amended. For a destination that does not end in \<open>.parquet\<close>: the plugin
  module's builder prepends \<open>"names"."primary" as name\<close> exactly when the URL contains
  \<open>overture\<close> and some column name of the schema contains \<open>names\<close>; the builder of utils.py
  prepends it when both hold and does not when the URL does not contain \<open>overture\<close>. For
  a destination that ends in \<open>.parquet\<close> both builders give \<open>SELECT *\<close>.
\<close>

theorem synthetic_name_column:
  \<open>(\<not> endswith out ''.parquet'' \<longrightarrow>
      (plugin_select_query u out s =
         ''SELECT "names"."primary" as name,'' @ join '', '' (process_schema_columns s)
       \<longleftrightarrow> contains ''overture'' u \<and> has_names_column s)
    \<and> (plugin_select_query u out s = ''SELECT '' @ join '', '' (process_schema_columns s)
       \<longleftrightarrow> \<not> (contains ''overture'' u \<and> has_names_column s))
    \<and> (contains ''overture'' u \<and> has_names_column s \<longrightarrow>
         select_query u out s =
           ''SELECT "names"."primary" as name,'' @ join '', '' (process_schema_columns s))
    \<and> (\<not> contains ''overture'' u \<longrightarrow>
         select_query u out s = ''SELECT '' @ join '', '' (process_schema_columns s)))
   \<and> (endswith out ''.parquet'' \<longrightarrow>
        select_query u out s = ''SELECT *'' \<and> plugin_select_query u out s = ''SELECT *'')\<close>
  using name_prefix_differs [of "join '', '' (process_schema_columns s)"]
    name_prefix_differs [of "join '', '' (process_schema_columns s)", symmetric]
  by (auto simp: plugin_select_query_def select_query_def Let_def)

theorem synthetic_name_column_witness:
  \<open>\<not> endswith ''places.gpkg'' ''.parquet''
   \<and> contains ''overture'' ''s3://overturemaps-us-west-2/release/2025-01-22.0/theme=places/type=place/*''
   \<and> has_names_column [(''id'', ''VARCHAR''), (''names'', ''STRUCT(a VARCHAR)'')]
   \<and> plugin_select_query ''s3://overturemaps-us-west-2/release/2025-01-22.0/theme=places/type=place/*''
        ''places.gpkg'' [(''id'', ''VARCHAR''), (''names'', ''STRUCT(a VARCHAR)'')] =
      ''SELECT "names"."primary" as name,"id", TO_JSON("names") AS "names"''
   \<and> select_query ''s3://overturemaps-us-west-2/release/2025-01-22.0/theme=places/type=place/*''
        ''places.gpkg'' [(''id'', ''VARCHAR''), (''names'', ''STRUCT(a VARCHAR)'')] =
      ''SELECT "names"."primary" as name,"id", TO_JSON("names") AS "names"''
   \<and> \<not> contains ''overture'' ''https://example.org/a.parquet''
   \<and> plugin_select_query ''https://example.org/a.parquet''
        ''places.gpkg'' [(''id'', ''VARCHAR''), (''names'', ''STRUCT(a VARCHAR)'')] =
      ''SELECT "id", TO_JSON("names") AS "names"''
   \<and> select_query ''https://example.org/a.parquet''
        ''places.gpkg'' [(''id'', ''VARCHAR''), (''names'', ''STRUCT(a VARCHAR)'')] =
      ''SELECT "id", TO_JSON("names") AS "names"''
   \<and> endswith ''places.parquet'' ''.parquet''
   \<and> plugin_select_query ''https://example.org/a.parquet''
        ''places.parquet'' [(''id'', ''VARCHAR''), (''names'', ''STRUCT(a VARCHAR)'')] = ''SELECT *''\<close>
proof -
  let ?o = "''s3://overturemaps-us-west-2/release/2025-01-22.0/theme=places/type=place/*''"
  let ?s = "[(''id'', ''VARCHAR''), (''names'', ''STRUCT(a VARCHAR)'')]"
  have e: "\<not> endswith ''places.gpkg'' ''.parquet''" "endswith ''places.parquet'' ''.parquet''"
    by code_simp+
  have u: "contains ''overture'' ?o" "\<not> contains ''overture'' ''https://example.org/a.parquet''"
    by code_simp+
  have n: "has_names_column ?s" by code_simp
  have c: \<open>join '', '' (process_schema_columns ?s) = ''"id", TO_JSON("names") AS "names"''\<close>
    by code_simp
  show ?thesis
    using synthetic_name_column [of "''places.gpkg''" ?o ?s]
      synthetic_name_column [of "''places.gpkg''" "''https://example.org/a.parquet''" ?s]
      synthetic_name_column [of "''places.parquet''" "''https://example.org/a.parquet''" ?s]
      e u n
    by (simp add: c)
qed


section \<open>Properties of \<open>Worker.run\<close>\<close>

lemma andthen_emit [simp]: "andthen (emit s) f tr = f () (tr @ [Emit s])"
  by (simp add: andthen_def emit_def)

lemma andthen_proceed [simp]: "andthen (proceed a) f tr = f a tr"
  by (simp add: andthen_def proceed_def)

lemma andthen_returns [simp]: "andthen (returns r) f tr = (tr, Return r)"
  by (simp add: andthen_def returns_def)

lemma andthen_raise [simp]: "andthen (raise e) f tr = (tr, Raise e)"
  by (simp add: andthen_def raise_def)

lemma andthen_assoc [simp]:
  "andthen (andthen m g) f = andthen m (\<lambda>a. andthen (g a) f)"
  by (rule ext) (simp add: andthen_def split: prod.splits flow.splits)

lemma andthen_if [simp]:
  "andthen (if c then m else n) f = (if c then andthen m f else andthen n f)"
  by simp

lemma returns_apply [simp]: "returns r tr = (tr, Return r)"
  by (simp add: returns_def)

lemma proceed_apply [simp]: "proceed a tr = (tr, Next a)"
  by (simp add: proceed_def)

lemma raise_apply [simp]: "raise e tr = (tr, Raise e)"
  by (simp add: raise_def)

lemma emit_apply [simp]: "emit s tr = (tr @ [Emit s], Next ())"
  by (simp add: emit_def)

lemma andthen_execute:
  "andthen (execute eng q) f tr =
     (case exec_error eng (length tr) q of
        Some e \<Rightarrow> (tr @ [Execute q], Raise e)
      | None \<Rightarrow> f () (tr @ [Execute q]))"
  by (simp add: andthen_def execute_def split: option.splits)

lemma andthen_execute_ok [simp]:
  "succeeds eng q \<Longrightarrow> andthen (execute eng q) f tr = f () (tr @ [Execute q])"
  by (simp add: andthen_execute succeeds_def)

lemma execute_ok [simp]:
  "succeeds eng q \<Longrightarrow> execute eng q tr = (tr @ [Execute q], Next ())"
  by (simp add: execute_def succeeds_def)

lemma andthen_connect_memory [simp]:
  "andthen (connect eng None) f tr = f () (tr @ [Connect None])"
  by (simp add: andthen_def connect_def)

lemma split_last_suffix:
  assumes "endswith s (c # e)" "c \<notin> set e"
  shows "split_last c s = e"
proof -
  obtain p where s: "s = p @ c # e"
    using assms(1) by (auto simp: endswith_def suffix_def)
  have "takeWhile (\<lambda>x. x \<noteq> c) (rev e @ c # rev p) = rev e"
    using assms(2) by (auto simp: takeWhile_tail)
  then show ?thesis by (simp add: split_last_def s)
qed

lemma endswith_lower: "endswith s suf \<Longrightarrow> endswith (lower s) (lower suf)"
  by (auto simp: endswith_def suffix_def lower_def)

lemma extension_of_suffix:
  assumes "endswith path (CHR ''.'' # e) \<or> endswith (lower path) (CHR ''.'' # e)"
    "lower (CHR ''.'' # e) = CHR ''.'' # e" "CHR ''.'' \<notin> set e"
  shows "file_extension path = e"
proof -
  have "endswith (lower path) (CHR ''.'' # e)"
    using assms(1,2) endswith_lower [of path "CHR ''.'' # e"] by auto
  then show ?thesis
    unfolding file_extension_def using assms(3) by (rule split_last_suffix)
qed

lemma unsupported_extension:
  assumes "file_extension path \<notin> {''duckdb'', ''parquet'', ''gpkg'', ''fgb'', ''geojson''}"
  shows "\<not> endswith (lower path) ''.duckdb''" "\<not> endswith (lower path) ''.geojson''"
    "\<not> endswith path ''.gpkg''" "\<not> endswith path ''.fgb''" "\<not> endswith path ''.geojson''"
proof -
  have l: "lower ''.duckdb'' = ''.duckdb''" "lower ''.geojson'' = ''.geojson''"
    "lower ''.gpkg'' = ''.gpkg''" "lower ''.fgb'' = ''.fgb''"
    by code_simp+
  show "\<not> endswith (lower path) ''.duckdb''"
    using assms extension_of_suffix [of path "''duckdb''"] l by auto
  show "\<not> endswith (lower path) ''.geojson''"
    using assms extension_of_suffix [of path "''geojson''"] l by auto
  show "\<not> endswith path ''.gpkg''"
    using assms extension_of_suffix [of path "''gpkg''"] l by auto
  show "\<not> endswith path ''.fgb''"
    using assms extension_of_suffix [of path "''fgb''"] l by auto
  show "\<not> endswith path ''.geojson''"
    using assms extension_of_suffix [of path "''geojson''"] l by auto
qed

lemma run_connect_ok:
  assumes "\<not> endswith (lower (output_file w)) ''.duckdb''"
    "succeeds eng ''INSTALL httpfs;''" "succeeds eng ''INSTALL spatial;''"
    "succeeds eng ''LOAD httpfs;''" "succeeds eng ''LOAD spatial;''"
    "succeeds eng (schema_query (dataset_url w))"
  shows "run_connect eng w tr =
     (tr @ [Emit (Progress ''Loading spatial extension...''), Connect None,
            Execute ''INSTALL httpfs;'', Execute ''INSTALL spatial;'',
            Execute ''LOAD httpfs;'', Execute ''LOAD spatial;'',
            Execute (schema_query (dataset_url w))],
      Next (describe_source eng))"
  using assms by (simp add: run_connect_def)

lemma not_copy:
  "\<not> prefix ''COPY'' ''INSTALL httpfs;''" "\<not> prefix ''COPY'' ''INSTALL spatial;''"
  "\<not> prefix ''COPY'' ''LOAD httpfs;''" "\<not> prefix ''COPY'' ''LOAD spatial;''"
  "\<not> prefix ''COPY'' (schema_query u)" "\<not> prefix ''COPY'' (base_query sel u wh)"
  "\<not> prefix ''COPY'' (plugin_base_query sel u wh)"
  "\<not> prefix ''COPY'' count_query" "\<not> prefix ''COPY'' drop_query"
  by (simp_all add: schema_query_def base_query_def plugin_base_query_def count_query_def
      drop_query_def)

lemma example_succeeds [simp]: "succeeds example_engine q"
  by (simp add: succeeds_def example_engine_def)

text \<open>
  Claim C4. Let the extension of the destination (the text after its last dot, in lower
  case) be none of \<open>duckdb\<close>, \<open>parquet\<close>, \<open>gpkg\<close>, \<open>fgb\<close>, \<open>geojson\<close>, and let the
  materialized table have rows. When the statements up to the row count succeed, \<open>run\<close>
  of utils.py emits \<open>Unsupported file format.\<close> on the error signal as its last signal,
  and \<open>run\<close> of the plugin module emits it too; in both, no statement sent to the engine
  is a COPY, nothing is committed, and neither \<open>finished\<close> nor \<open>load_layer\<close> is emitted.
\<close>

theorem unsupported_format_reported:
  assumes "file_extension (output_file w) \<notin> {''duckdb'', ''parquet'', ''gpkg'', ''fgb'', ''geojson''}"
    and "count_rows eng \<noteq> 0"
  shows "(list_all (succeeds eng) (download_statements w bbox (describe_source eng)) \<longrightarrow>
           signals (Worker_run eng w bbox) =
             [Progress ''Connecting to database...'', Progress ''Loading spatial extension...'',
              Progress ''Preparing query...'', Progress ''Downloading data...'',
              Progress ''Processing data to requested format...'',
              Progress (''Exporting data to '' @ upper (file_extension (output_file w)) @ ''...''),
              Error ''Unsupported file format.'']
         \<and> list_all (\<lambda>q. \<not> prefix ''COPY'' q) (executed (Worker_run eng w bbox))
         \<and> Commit \<notin> set (Worker_run eng w bbox))
       \<and> (list_all (succeeds eng) (plugin_download_statements w bbox (describe_source eng)) \<longrightarrow>
           Error ''Unsupported file format.'' \<in> set (signals (plugin_Worker_run eng w bbox))
         \<and> Finished \<notin> set (signals (plugin_Worker_run eng w bbox))
         \<and> (\<forall>f. LoadLayer f \<notin> set (signals (plugin_Worker_run eng w bbox)))
         \<and> list_all (\<lambda>q. \<not> prefix ''COPY'' q) (executed (plugin_Worker_run eng w bbox))
         \<and> Commit \<notin> set (plugin_Worker_run eng w bbox))"
proof -
  note ext = unsupported_extension [OF assms(1)]
  have fo: "format_options (file_extension (output_file w)) (output_file w) = None"
    "plugin_format_options (file_extension (output_file w)) (output_file w) = None"
    "file_extension (output_file w) \<noteq> ''duckdb''"
    using assms(1) ext by (simp_all add: format_options_def plugin_format_options_def)
  have nd: "\<not> contains ''No data found'' unbound_format_options"
    by code_simp
  have utils: "signals (Worker_run eng w bbox) =
             [Progress ''Connecting to database...'', Progress ''Loading spatial extension...'',
              Progress ''Preparing query...'', Progress ''Downloading data...'',
              Progress ''Processing data to requested format...'',
              Progress (''Exporting data to '' @ upper (file_extension (output_file w)) @ ''...''),
              Error ''Unsupported file format.'']
         \<and> list_all (\<lambda>q. \<not> prefix ''COPY'' q) (executed (Worker_run eng w bbox))
         \<and> Commit \<notin> set (Worker_run eng w bbox)"
    if "list_all (succeeds eng) (download_statements w bbox (describe_source eng))"
    using that assms(2) ext fo
    by (simp add: download_statements_def Worker_run_def run_connect_ok run_export_def
        export_file_def run_finally_def not_copy)
  have plugin: "Error ''Unsupported file format.'' \<in> set (signals (plugin_Worker_run eng w bbox))
         \<and> Finished \<notin> set (signals (plugin_Worker_run eng w bbox))
         \<and> (\<forall>f. LoadLayer f \<notin> set (signals (plugin_Worker_run eng w bbox)))
         \<and> list_all (\<lambda>q. \<not> prefix ''COPY'' q) (executed (plugin_Worker_run eng w bbox))
         \<and> Commit \<notin> set (plugin_Worker_run eng w bbox)"
    if "list_all (succeeds eng) (plugin_download_statements w bbox (describe_source eng))"
    using that assms(2) ext fo nd
    by (simp add: plugin_download_statements_def plugin_Worker_run_def run_connect_ok
        plugin_run_export_def plugin_export_file_def run_finally_def plugin_run_except_def not_copy)
  show ?thesis
    using utils plugin by blast
qed


theorem unsupported_format_reported_witness:
  "file_extension (output_file (example_worker ''out.xyz''))
     \<notin> {''duckdb'', ''parquet'', ''gpkg'', ''fgb'', ''geojson''}
   \<and> count_rows example_engine \<noteq> 0
   \<and> list_all (succeeds example_engine)
        (download_statements (example_worker ''out.xyz'') example_extent
           (describe_source example_engine))
   \<and> list_all (succeeds example_engine)
        (plugin_download_statements (example_worker ''out.xyz'') example_extent
           (describe_source example_engine))
   \<and> signals (Worker_run example_engine (example_worker ''out.xyz'') example_extent) =
        [Progress ''Connecting to database...'', Progress ''Loading spatial extension...'',
         Progress ''Preparing query...'', Progress ''Downloading data...'',
         Progress ''Processing data to requested format...'',
         Progress ''Exporting data to XYZ...'',
         Error ''Unsupported file format.'']
   \<and> Error ''Unsupported file format.''
        \<in> set (signals (plugin_Worker_run example_engine (example_worker ''out.xyz'') example_extent))
   \<and> list_all (\<lambda>q. \<not> prefix ''COPY'' q)
        (executed (Worker_run example_engine (example_worker ''out.xyz'') example_extent))
   \<and> list_all (\<lambda>q. \<not> prefix ''COPY'' q)
        (executed (plugin_Worker_run example_engine (example_worker ''out.xyz'') example_extent))"
proof -
  have e: "file_extension (output_file (example_worker ''out.xyz''))
     \<notin> {''duckdb'', ''parquet'', ''gpkg'', ''fgb'', ''geojson''}"
    by code_simp
  have u: "upper (file_extension (output_file (example_worker ''out.xyz''))) = ''XYZ''"
    by code_simp
  have c: "count_rows example_engine \<noteq> 0"
    by (simp add: example_engine_def)
  have s: "list_all (succeeds example_engine) qs" for qs
    by (simp add: list_all_iff)
  show ?thesis
    using unsupported_format_reported [OF e c, of example_extent] e c s
    by (simp add: u)
qed

text \<open>
  Claim C1 at an empty result, destination \<open>out.gpkg\<close>: \<open>run\<close> of utils.py reports the
  empty result on the error signal and emits nothing on \<open>info\<close>; the copy in the plugin
  module reports it on \<open>info\<close> and emits \<open>finished\<close>.
\<close>

theorem empty_result_on_error_signal:
  "signals (Worker_run (example_engine\<lparr>count_rows := 0\<rparr>) (example_worker ''out.gpkg'')
      example_extent) =
     [Progress ''Connecting to database...'', Progress ''Loading spatial extension...'',
      Progress ''Preparing query...'', Progress ''Downloading data...'',
      Error no_data_message]
   \<and> signals (plugin_Worker_run (example_engine\<lparr>count_rows := 0\<rparr>) (example_worker ''out.gpkg'')
      example_extent) =
     [Progress ''Connecting to database...'', Progress ''Loading spatial extension...'',
      Progress ''Preparing query...'', Progress ''Downloading data...'',
      Info plugin_no_data_message, Finished]"
  by code_simp

text \<open>
  Claim C9 at an empty result, with \<open>kill()\<close> arriving while the download statement
  runs (twelve events into the run): what follows the kill still has the error signal in
  utils.py and the info signal in the plugin module, then the cleanup.
\<close>

theorem error_after_kill:
  "drop 12 (Worker_run (example_engine\<lparr>count_rows := 0\<rparr>)
      ((example_worker ''out.gpkg'')\<lparr>kill_after := Some 12\<rparr>) example_extent) =
     [Execute count_query, Emit (Error no_data_message), Execute drop_query, Close]
   \<and> drop 12 (plugin_Worker_run (example_engine\<lparr>count_rows := 0\<rparr>)
      ((example_worker ''out.gpkg'')\<lparr>kill_after := Some 12\<rparr>) example_extent) =
     [Execute count_query, Emit (Info plugin_no_data_message), Emit Finished,
      Execute drop_query, Close]"
  by code_simp

lemma andthen_estimate [simp]:
  "andthen (estimate_file_size eng) f tr =
     (case estimate_file_size eng tr of (tr', fl) \<Rightarrow>
        (case fl of Next mb \<Rightarrow> f mb tr' | Raise e \<Rightarrow> (tr', Raise e) | Return r \<Rightarrow> (tr', Return r)))"
  by (simp add: andthen_def split: prod.splits flow.splits)

subsection \<open>The size estimate\<close>

lemma bitlen_powi:
  assumes "0 < n"
  shows "(2::rat) powi (bitlen n - 1) \<le> of_int n" "of_int n < (2::rat) powi (bitlen n)"
proof -
  have b: "2 ^ nat (bitlen n - 1) \<le> n" "n < 2 ^ nat (bitlen n)"
    using bitlen_bounds [OF assms] by auto
  have pos: "1 \<le> bitlen n"
    using assms bitlen_eq_zero_iff [of n] bitlen_nonneg [of n] by linarith
  have "(2::rat) powi (bitlen n - 1) = of_int (2 ^ nat (bitlen n - 1))"
    using pos by (simp add: power_int_def)
  also have "\<dots> \<le> of_int n" using b(1) by (simp only: of_int_le_iff)
  finally show "(2::rat) powi (bitlen n - 1) \<le> of_int n" .
  have "(of_int n :: rat) < of_int (2 ^ nat (bitlen n))" using b(2) by (simp only: of_int_less_iff)
  also have "\<dots> = 2 powi (bitlen n)" using pos by (simp add: power_int_def)
  finally show "of_int n < (2::rat) powi (bitlen n)" .
qed

text \<open>\<open>binade\<close> is the exponent of its argument.\<close>

lemma binade_bounds:
  assumes "x \<noteq> 0"
  shows "2 powi (binade x) \<le> \<bar>x\<bar> \<and> \<bar>x\<bar> < 2 powi (binade x + 1)"
proof -
  obtain p q where pq: "quotient_of x = (p, q)" by (cases "quotient_of x")
  have q: "0 < q" using quotient_of_denom_pos [OF pq] .
  have x: "x = of_int p / of_int q" using quotient_of_div [OF pq] .
  have p: "0 < \<bar>p\<bar>" using assms x by auto
  define a where "a = bitlen \<bar>p\<bar> - bitlen q"
  have ax: "\<bar>x\<bar> = of_int \<bar>p\<bar> / of_int q"
    using q by (simp add: x abs_divide)
  have qpos: "(0::rat) < of_int q" using q by simp
  have up: "\<bar>x\<bar> < 2 powi (a + 1)"
  proof -
    have "of_int \<bar>p\<bar> < (2::rat) powi (bitlen \<bar>p\<bar>)" using bitlen_powi(2) [OF p] .
    also have "\<dots> = 2 powi (a + 1) * 2 powi (bitlen q - 1)"
      by (simp add: a_def flip: power_int_add)
    also have "\<dots> \<le> 2 powi (a + 1) * of_int q"
      using bitlen_powi(1) [OF q] by (simp add: mult_left_mono)
    finally show ?thesis using qpos by (simp add: ax pos_divide_less_eq)
  qed
  have lo: "2 powi (a - 1) \<le> \<bar>x\<bar>"
  proof -
    have "(2::rat) powi (a - 1) * of_int q \<le> 2 powi (a - 1) * 2 powi (bitlen q)"
      using bitlen_powi(2) [OF q] by (simp add: mult_left_mono less_imp_le)
    also have "\<dots> = 2 powi (bitlen \<bar>p\<bar> - 1)"
      by (simp add: a_def flip: power_int_add)
    also have "\<dots> \<le> of_int \<bar>p\<bar>" using bitlen_powi(1) [OF p] .
    finally show ?thesis using qpos by (simp add: ax pos_le_divide_eq)
  qed
  have b: "binade x = (if 2 powi a \<le> \<bar>x\<bar> then a else a - 1)"
    by (simp add: binade_def pq a_def Let_def)
  show ?thesis
    using up lo by (auto simp: b)
qed




section \<open>Properties of \<open>ValidationWorker\<close>\<close>

lemma signals_append [simp]: "signals (xs @ ys) = signals xs @ signals ys"
  by (induction xs rule: signals.induct) auto

lemma strip_Nil [simp]: "strip c [] = []"
  by (simp add: strip_def)

lemma parse_geo_signals: "signals (fst (parse_geo eng v tr)) = signals tr"
  by (simp add: parse_geo_def decode_def fetch_bbox_path_def andthen_execute
      split: blob.splits option.splits sum.splits)

lemma parse_geo_malformed:
  assumes "malformed eng v"
  shows "\<exists>e. snd (parse_geo eng v tr) = Raise e"
  using assms
  by (simp add: parse_geo_def decode_def fetch_bbox_path_def andthen_execute malformed_def
      split: blob.splits option.splits sum.splits)

lemma parse_geo_unusable:
  assumes "\<not> usable eng v"
  shows "(\<exists>e. snd (parse_geo eng v tr) = Raise e) \<or> snd (parse_geo eng v tr) = Next ()
    \<or> snd (parse_geo eng v tr) = Return []"
  using assms
  by (auto simp: parse_geo_def decode_def fetch_bbox_path_def andthen_execute usable_def
      split: blob.splits option.splits sum.splits)

lemma parse_geo_return:
  "snd (parse_geo eng v tr) = Return c \<Longrightarrow> c \<noteq> [] \<Longrightarrow> usable eng v"
  using parse_geo_unusable [of eng v tr] by auto

lemma execute_signals [simp]: "signals (fst (execute eng q tr)) = signals tr"
  by (simp add: execute_def)

lemma check_rows_signals:
  "signals (fst (check_rows eng rows (tr :: validation_signal trace)
     :: validation_signal trace \<times> (unit, string option) flow)) = signals tr"
proof (induction rows arbitrary: tr)
  case Nil
  then show ?case by simp
next
  case (Cons row rows)
  obtain k v where row: "row = (k, v)" by (cases row)
  show ?case
  proof (cases "k = Utf8 ''geo''")
    case False
    then show ?thesis using Cons.IH by (simp add: row)
  next
    case True
    obtain tr1 outcome where p: "parse_geo eng v tr = (tr1, outcome)"
      by (cases "parse_geo eng v tr")
    have s1: "signals tr1 = signals tr"
      using parse_geo_signals [of eng v tr] p by simp
    show ?thesis
      using True s1 Cons.IH [of "tr1 @ [Execute ''DROP TABLE IF EXISTS temp_json'']"]
      by (simp add: row p execute_def split: option.splits flow.splits)
  qed
qed

lemma check_rows_malformed:
  assumes "succeeds eng ''DROP TABLE IF EXISTS temp_json''"
    and "list_all (\<lambda>(k, v). k = Utf8 ''geo'' \<longrightarrow> malformed eng v) rows"
  shows "snd (check_rows eng rows (tr :: validation_signal trace)
     :: validation_signal trace \<times> (unit, string option) flow) = Next None"
  using assms(2)
proof (induction rows arbitrary: tr)
  case Nil
  then show ?case by simp
next
  case (Cons row rows)
  obtain k v where row: "row = (k, v)" by (cases row)
  show ?case
  proof (cases "k = Utf8 ''geo''")
    case False
    then show ?thesis using Cons by (simp add: row)
  next
    case True
    obtain tr1 outcome where p: "parse_geo eng v tr = (tr1, outcome)"
      by (cases "parse_geo eng v tr")
    have "malformed eng v" using Cons.prems True by (simp add: row)
    then obtain e where e: "outcome = Raise e"
      using parse_geo_malformed [of eng v tr] p by auto
    show ?thesis
      using True Cons assms(1) by (simp add: row p e)
  qed
qed

lemma check_rows_unusable:
  assumes "succeeds eng ''DROP TABLE IF EXISTS temp_json''"
    and "list_all (\<lambda>(k, v). k = Utf8 ''geo'' \<longrightarrow> \<not> usable eng v) rows"
  shows "\<exists>r. snd (check_rows eng rows (tr :: validation_signal trace)
     :: validation_signal trace \<times> (unit, string option) flow) = Next r \<and> \<not> truthy r"
  using assms(2)
proof (induction rows arbitrary: tr)
  case Nil
  then show ?case by (simp add: truthy_def)
next
  case (Cons row rows)
  obtain k v where row: "row = (k, v)" by (cases row)
  show ?case
  proof (cases "k = Utf8 ''geo''")
    case False
    then show ?thesis using Cons by (simp add: row)
  next
    case True
    obtain tr1 outcome where p: "parse_geo eng v tr = (tr1, outcome)"
      by (cases "parse_geo eng v tr")
    have "\<not> usable eng v" using Cons.prems True by (simp add: row)
    then have "(\<exists>e. outcome = Raise e) \<or> outcome = Next () \<or> outcome = Return []"
      using parse_geo_unusable [of eng v tr] p by auto
    then show ?thesis
      using True Cons assms(1) by (auto simp: row p truthy_def)
  qed
qed

lemma check_rows_result:
  "snd (check_rows eng rows (tr :: validation_signal trace)
     :: validation_signal trace \<times> (unit, string option) flow) \<noteq> Return r"
proof (induction rows arbitrary: tr)
  case Nil
  then show ?case by simp
next
  case (Cons row rows)
  obtain k v where row: "row = (k, v)" by (cases row)
  obtain tr1 outcome where p: "parse_geo eng v tr = (tr1, outcome)"
    by (cases "parse_geo eng v tr")
  show ?case
    using Cons.IH by (simp add: row p execute_def split: option.splits flow.splits)
qed


lemma find_bbox_cases:
  "\<exists>tr' fl. find_bbox eng u s tr = (tr', fl) \<and> signals tr' = signals tr \<and>
     ((\<exists>e. fl = Raise e)
      \<or> fl = Next [(''schema'', PSchema s), (''has_bbox'', PBool False), (''bbox_column'', PNone)]
      \<or> (\<exists>c. c \<noteq> [] \<and>
            fl = Next [(''schema'', PSchema s), (''has_bbox'', PBool True),
                       (''bbox_column'', PStr c)]))"
proof (cases "has_bbox_struct s")
  case True
  then show ?thesis by (simp add: find_bbox_def)
next
  case False
  show ?thesis
  proof (cases "exec_error eng (length tr) (metadata_query u)")
    case (Some e)
    then show ?thesis
      using False by (simp add: find_bbox_def check_bbox_metadata_def andthen_execute Let_def)
  next
    case None
    let ?tr = "tr @ [Execute (metadata_query u)]"
    obtain tr1 fl1 where c: "(check_rows eng (kv_metadata eng) ?tr
       :: validation_signal trace \<times> (unit, string option) flow) = (tr1, fl1)"
      by (cases "check_rows eng (kv_metadata eng) ?tr
           :: validation_signal trace \<times> (unit, string option) flow")
    have s1: "signals tr1 = signals tr"
      using check_rows_signals [of eng "kv_metadata eng" ?tr] c by simp
    have nr: "fl1 \<noteq> Return r" for r
      using check_rows_result [of eng "kv_metadata eng" ?tr r] c by simp
    show ?thesis
      using False None c s1 nr
      by (cases fl1)
        (auto simp: find_bbox_def check_bbox_metadata_def andthen_execute
          andthen_def [of "check_rows eng (kv_metadata eng)"] truthy_def Let_def
          split: option.splits)
  qed
qed

lemma validation_signals:
  "\<exists>rest. signals (ValidationWorker_run cat eng u) = VProgress ''Connecting to data source...'' # rest
     \<and> ((\<exists>e. rest = [VFinished False (''Error validating source: '' @ e) []])
        \<or> rest = [VFinished True ''Validation successful''
                    [(''has_bbox'', PBool True), (''bbox_column'', PStr ''bbox'')]]
        \<or> (\<exists>e. rest = [VProgress ''Checking data format...'',
                         VFinished False (''Error validating source: '' @ e) []])
        \<or> rest = [VProgress ''Checking data format...'', NeedsBboxWarning]
        \<or> (\<exists>c. c \<noteq> [] \<and>
              rest = [VProgress ''Checking data format...'',
                      VFinished True ''Validation successful''
                        [(''schema'', PSchema (describe_source eng)), (''has_bbox'', PBool True),
                         (''bbox_column'', PStr c)]]))"
proof -
  let ?tr = "[Emit (VProgress ''Connecting to data source...''), Connect None,
              Execute ''INSTALL spatial;'', Execute ''LOAD spatial;'',
              Execute ''INSTALL httpfs;'', Execute ''LOAD httpfs;'',
              Emit (VProgress ''Checking data format...''), Execute (schema_query u)]"
  obtain tr' fl where fb: "find_bbox eng u (describe_source eng) ?tr = (tr', fl)"
    and sg: "signals tr' = signals ?tr"
    and cs: "(\<exists>e. fl = Raise e)
      \<or> fl = Next [(''schema'', PSchema (describe_source eng)), (''has_bbox'', PBool False),
                   (''bbox_column'', PNone)]
      \<or> (\<exists>c. c \<noteq> [] \<and>
            fl = Next [(''schema'', PSchema (describe_source eng)), (''has_bbox'', PBool True),
                       (''bbox_column'', PStr c)])"
    using find_bbox_cases [of eng u "describe_source eng" ?tr] by blast
  show ?thesis
    using fb sg cs
    by (auto simp: ValidationWorker_run_def validate_def andthen_execute
        andthen_def [of "find_bbox eng u (describe_source eng)"] dict_get_def py_truthy_def
        split: option.splits)
qed


lemma bbox_engine_succeeds [simp]: "succeeds bbox_engine q"
  by (simp add: succeeds_def bbox_engine_def example_engine_def)

lemma malformed_engine_succeeds [simp]: "succeeds malformed_engine q"
  by (simp add: succeeds_def malformed_engine_def example_engine_def)

lemma needs_validation_match:
  "needs_validation cat u \<longleftrightarrow> match_sources u cat \<noteq> Some False"
  by (auto simp: needs_validation_def split: option.splits)

text \<open>
  Claim C3. Let the four setup statements succeed. When the first catalogue entry that
  matches the URL is marked as not needing validation, \<open>run\<close> emits
  \<open>finished(True, ..., {has_bbox: True, bbox_column: 'bbox'})\<close> and sends nothing else to
  the engine: the schema is not probed. Otherwise, when the schema query succeeds and
  the schema has a column named \<open>bbox\<close> whose type names a struct, \<open>run\<close> emits
  \<open>finished\<close> with \<open>bbox_column = 'bbox'\<close> right after the schema query: the key/value
  metadata is not fetched.
\<close>

theorem detector_decision_order:
  assumes "succeeds eng ''INSTALL spatial;''" "succeeds eng ''LOAD spatial;''"
    "succeeds eng ''INSTALL httpfs;''" "succeeds eng ''LOAD httpfs;''"
  shows "(match_sources u cat = Some False \<longrightarrow>
            ValidationWorker_run cat eng u =
              [Emit (VProgress ''Connecting to data source...''), Connect None,
               Execute ''INSTALL spatial;'', Execute ''LOAD spatial;'',
               Execute ''INSTALL httpfs;'', Execute ''LOAD httpfs;'',
               Emit (VFinished True ''Validation successful''
                       [(''has_bbox'', PBool True), (''bbox_column'', PStr ''bbox'')]),
               Close])
       \<and> (match_sources u cat \<noteq> Some False \<and> succeeds eng (schema_query u)
            \<and> (''bbox'', ty) \<in> set (describe_source eng) \<and> contains ''struct'' (lower ty) \<longrightarrow>
            ValidationWorker_run cat eng u =
              [Emit (VProgress ''Connecting to data source...''), Connect None,
               Execute ''INSTALL spatial;'', Execute ''LOAD spatial;'',
               Execute ''INSTALL httpfs;'', Execute ''LOAD httpfs;'',
               Emit (VProgress ''Checking data format...''), Execute (schema_query u),
               Emit (VFinished True ''Validation successful''
                       [(''schema'', PSchema (describe_source eng)), (''has_bbox'', PBool True),
                        (''bbox_column'', PStr ''bbox'')]),
               Close])"
proof -
  have l: "lower ''bbox'' = ''bbox''" by code_simp
  have hb: "has_bbox_struct (describe_source eng)"
    if "(''bbox'', ty) \<in> set (describe_source eng)" "contains ''struct'' (lower ty)"
    using that l by (force simp: has_bbox_struct_def list_ex_iff)
  show ?thesis
    using assms hb
    by (auto simp: ValidationWorker_run_def validate_def needs_validation_match find_bbox_def
        dict_get_def py_truthy_def)
qed

theorem detector_decision_order_witness:
  "succeeds example_engine ''INSTALL spatial;''
   \<and> match_sources ''s3://overturemaps-us-west-2/release/2025-01-22.0/theme=places/type=place/*''
        PRESET_DATASETS = Some False
   \<and> ValidationWorker_run PRESET_DATASETS example_engine
        ''s3://overturemaps-us-west-2/release/2025-01-22.0/theme=places/type=place/*'' =
       [Emit (VProgress ''Connecting to data source...''), Connect None,
        Execute ''INSTALL spatial;'', Execute ''LOAD spatial;'',
        Execute ''INSTALL httpfs;'', Execute ''LOAD httpfs;'',
        Emit (VFinished True ''Validation successful''
                [(''has_bbox'', PBool True), (''bbox_column'', PStr ''bbox'')]),
        Close]
   \<and> match_sources ''https://example.org/roads.parquet'' PRESET_DATASETS \<noteq> Some False
   \<and> succeeds bbox_engine (schema_query ''https://example.org/roads.parquet'')
   \<and> (''bbox'', ''STRUCT(xmin DOUBLE, ymin DOUBLE, xmax DOUBLE, ymax DOUBLE)'')
        \<in> set (describe_source bbox_engine)
   \<and> contains ''struct'' (lower ''STRUCT(xmin DOUBLE, ymin DOUBLE, xmax DOUBLE, ymax DOUBLE)'')
   \<and> signals (ValidationWorker_run PRESET_DATASETS bbox_engine ''https://example.org/roads.parquet'') =
       [VProgress ''Connecting to data source...'', VProgress ''Checking data format...'',
        VFinished True ''Validation successful''
          [(''schema'', PSchema (describe_source bbox_engine)), (''has_bbox'', PBool True),
           (''bbox_column'', PStr ''bbox'')]]"
proof -
  have m: "match_sources ''s3://overturemaps-us-west-2/release/2025-01-22.0/theme=places/type=place/*''
        PRESET_DATASETS = Some False"
    "match_sources ''https://example.org/roads.parquet'' PRESET_DATASETS \<noteq> Some False"
    by code_simp+
  have b: "(''bbox'', ''STRUCT(xmin DOUBLE, ymin DOUBLE, xmax DOUBLE, ymax DOUBLE)'')
        \<in> set (describe_source bbox_engine)"
    by (simp add: bbox_engine_def)
  have c: "contains ''struct'' (lower ''STRUCT(xmin DOUBLE, ymin DOUBLE, xmax DOUBLE, ymax DOUBLE)'')"
    by code_simp
  show ?thesis
    using detector_decision_order [of example_engine
        "''s3://overturemaps-us-west-2/release/2025-01-22.0/theme=places/type=place/*''"
        PRESET_DATASETS]
      detector_decision_order [of bbox_engine "''https://example.org/roads.parquet''"
        PRESET_DATASETS "''STRUCT(xmin DOUBLE, ymin DOUBLE, xmax DOUBLE, ymax DOUBLE)''"]
      m b c
    by simp
qed

lemma no_bbox_run:
  assumes "succeeds eng ''INSTALL spatial;''" "succeeds eng ''LOAD spatial;''"
    "succeeds eng ''INSTALL httpfs;''" "succeeds eng ''LOAD httpfs;''"
    "succeeds eng (schema_query u)" "succeeds eng (metadata_query u)"
    and "needs_validation cat u" "\<not> has_bbox_struct (describe_source eng)"
    and "\<And>tr. \<exists>r. snd (check_rows eng (kv_metadata eng) (tr :: validation_signal trace)
            :: validation_signal trace \<times> (unit, string option) flow) = Next r \<and> \<not> truthy r"
  shows "signals (ValidationWorker_run cat eng u) =
     [VProgress ''Connecting to data source...'', VProgress ''Checking data format...'',
      NeedsBboxWarning]"
proof -
  let ?tr = "[Emit (VProgress ''Connecting to data source...''), Connect None,
              Execute ''INSTALL spatial;'', Execute ''LOAD spatial;'',
              Execute ''INSTALL httpfs;'', Execute ''LOAD httpfs;'',
              Emit (VProgress ''Checking data format...''), Execute (schema_query u),
              Execute (metadata_query u)]"
  obtain tr1 fl1 where c: "(check_rows eng (kv_metadata eng) ?tr
       :: validation_signal trace \<times> (unit, string option) flow) = (tr1, fl1)"
    by (cases "check_rows eng (kv_metadata eng) ?tr
           :: validation_signal trace \<times> (unit, string option) flow")
  have s1: "signals tr1 = signals ?tr"
    using check_rows_signals [of eng "kv_metadata eng" ?tr] c by simp
  obtain r where r: "fl1 = Next r" "\<not> truthy r"
    using assms(9) [of ?tr] c by auto
  show ?thesis
    using assms(1-8) c s1 r
    by (simp add: ValidationWorker_run_def validate_def find_bbox_def check_bbox_metadata_def
        andthen_def [of "check_rows eng (kv_metadata eng)"] dict_get_def py_truthy_def Let_def)
qed

text \<open>
  Claim C6. When the metadata query and the cleanup of the temporary table succeed and
  every \<open>geo\<close> metadata value is malformed, \<open>check_bbox_metadata\<close> returns \<open>None\<close> and
  raises nothing. \<open>ValidationWorker.run\<close>, on a dataset that needs validation and has no
  \<open>bbox\<close> struct column, then emits \<open>needs_bbox_warning\<close> and no failure; a worker
  without bbox column filters with \<open>ST_Intersects\<close>.
\<close>

theorem malformed_metadata_swallowed:
  assumes "succeeds eng (metadata_query u)" "succeeds eng ''DROP TABLE IF EXISTS temp_json''"
    and "list_all (\<lambda>(k, v). k = Utf8 ''geo'' \<longrightarrow> malformed eng v) (kv_metadata eng)"
  shows "snd (check_bbox_metadata eng u (tr :: validation_signal trace)
            :: validation_signal trace \<times> (unit, string option) flow) = Next None
       \<and> (list_all (succeeds eng)
             [''INSTALL spatial;'', ''LOAD spatial;'', ''INSTALL httpfs;'', ''LOAD httpfs;'',
              schema_query u]
            \<and> needs_validation cat u \<and> \<not> has_bbox_struct (describe_source eng) \<longrightarrow>
           signals (ValidationWorker_run cat eng u) =
             [VProgress ''Connecting to data source...'', VProgress ''Checking data format...'',
              NeedsBboxWarning])"
proof -
  have none: "snd (check_rows eng (kv_metadata eng) (t :: validation_signal trace)
            :: validation_signal trace \<times> (unit, string option) flow) = Next None" for t
    using assms(2,3) by (rule check_rows_malformed)
  have 1: "snd (check_bbox_metadata eng u tr
            :: validation_signal trace \<times> (unit, string option) flow) = Next None"
    using assms(1) none [of "tr @ [Execute (metadata_query u)]"]
    by (simp add: check_bbox_metadata_def)
  have 2: "signals (ValidationWorker_run cat eng u) =
             [VProgress ''Connecting to data source...'', VProgress ''Checking data format...'',
              NeedsBboxWarning]"
    if "list_all (succeeds eng)
             [''INSTALL spatial;'', ''LOAD spatial;'', ''INSTALL httpfs;'', ''LOAD httpfs;'',
              schema_query u]" "needs_validation cat u" "\<not> has_bbox_struct (describe_source eng)"
  proof (rule no_bbox_run)
    show "\<exists>r. snd (check_rows eng (kv_metadata eng) (t :: validation_signal trace)
            :: validation_signal trace \<times> (unit, string option) flow) = Next r \<and> \<not> truthy r" for t
      using none [of t] by (simp add: truthy_def)
  qed (use that assms(1) in simp_all)
  show ?thesis using 1 2 by blast
qed


theorem malformed_metadata_swallowed_witness:
  "succeeds malformed_engine (metadata_query ''https://example.org/roads.parquet'')
   \<and> succeeds malformed_engine ''DROP TABLE IF EXISTS temp_json''
   \<and> list_all (\<lambda>(k, v). k = Utf8 ''geo'' \<longrightarrow> malformed malformed_engine v)
        (kv_metadata malformed_engine)
   \<and> (Utf8 ''geo'', Invalid_utf8) \<in> set (kv_metadata malformed_engine)
   \<and> needs_validation PRESET_DATASETS ''https://example.org/roads.parquet''
   \<and> \<not> has_bbox_struct (describe_source malformed_engine)
   \<and> snd (check_bbox_metadata malformed_engine ''https://example.org/roads.parquet''
             ([] :: validation_signal trace)
          :: validation_signal trace \<times> (unit, string option) flow) = Next None
   \<and> signals (ValidationWorker_run PRESET_DATASETS malformed_engine
                 ''https://example.org/roads.parquet'') =
       [VProgress ''Connecting to data source...'', VProgress ''Checking data format...'',
        NeedsBboxWarning]"
proof -
  have m: "list_all (\<lambda>(k, v). k = Utf8 ''geo'' \<longrightarrow> malformed malformed_engine v)
        (kv_metadata malformed_engine)"
    by (simp add: malformed_engine_def malformed_def)
  have g: "(Utf8 ''geo'', Invalid_utf8) \<in> set (kv_metadata malformed_engine)"
    by (simp add: malformed_engine_def)
  have n: "needs_validation PRESET_DATASETS ''https://example.org/roads.parquet''"
    by code_simp
  have h: "\<not> has_bbox_struct (describe_source malformed_engine)"
    by code_simp
  show ?thesis
    using m g n h
    by (simp add: malformed_metadata_swallowed
          [OF malformed_engine_succeeds malformed_engine_succeeds m, where cat = PRESET_DATASETS])
qed

text \<open>
  Claim C10. Whatever the engine does: a dictionary emitted on \<open>finished\<close> with
  \<open>success = True\<close> has \<open>has_bbox = True\<close> and a \<open>bbox_column\<close> that is a string and not
  empty; a run that emits \<open>needs_bbox_warning\<close> emits nothing on \<open>finished\<close>. When the
  statements succeed, the dataset needs validation, its schema has no \<open>bbox\<close> struct
  column and no \<open>geo\<close> metadata value is usable, the run emits \<open>needs_bbox_warning\<close>.
\<close>

theorem validation_result_invariant:
  "(VFinished True msg d \<in> set (signals (ValidationWorker_run cat eng u)) \<longrightarrow>
      dict_get d ''has_bbox'' = Some (PBool True)
      \<and> (\<exists>c. c \<noteq> [] \<and> dict_get d ''bbox_column'' = Some (PStr c)))
   \<and> (NeedsBboxWarning \<in> set (signals (ValidationWorker_run cat eng u)) \<longrightarrow>
        VFinished ok msg' d' \<notin> set (signals (ValidationWorker_run cat eng u)))
   \<and> (list_all (succeeds eng)
         [''INSTALL spatial;'', ''LOAD spatial;'', ''INSTALL httpfs;'', ''LOAD httpfs;'',
          schema_query u, metadata_query u, ''DROP TABLE IF EXISTS temp_json'']
        \<and> needs_validation cat u \<and> \<not> has_bbox_struct (describe_source eng)
        \<and> list_all (\<lambda>(k, v). k = Utf8 ''geo'' \<longrightarrow> \<not> usable eng v) (kv_metadata eng) \<longrightarrow>
        signals (ValidationWorker_run cat eng u) =
          [VProgress ''Connecting to data source...'', VProgress ''Checking data format...'',
           NeedsBboxWarning])"
proof -
  have 12: "(VFinished True msg d \<in> set (signals (ValidationWorker_run cat eng u)) \<longrightarrow>
      dict_get d ''has_bbox'' = Some (PBool True)
      \<and> (\<exists>c. c \<noteq> [] \<and> dict_get d ''bbox_column'' = Some (PStr c)))
   \<and> (NeedsBboxWarning \<in> set (signals (ValidationWorker_run cat eng u)) \<longrightarrow>
        VFinished ok msg' d' \<notin> set (signals (ValidationWorker_run cat eng u)))"
    using validation_signals [of cat eng u] by (auto simp: dict_get_def)
  have 3: "signals (ValidationWorker_run cat eng u) =
          [VProgress ''Connecting to data source...'', VProgress ''Checking data format...'',
           NeedsBboxWarning]"
    if ok: "list_all (succeeds eng)
         [''INSTALL spatial;'', ''LOAD spatial;'', ''INSTALL httpfs;'', ''LOAD httpfs;'',
          schema_query u, metadata_query u, ''DROP TABLE IF EXISTS temp_json'']"
      and nv: "needs_validation cat u" "\<not> has_bbox_struct (describe_source eng)"
      and un: "list_all (\<lambda>(k, v). k = Utf8 ''geo'' \<longrightarrow> \<not> usable eng v) (kv_metadata eng)"
  proof (rule no_bbox_run)
    have dr: "succeeds eng ''DROP TABLE IF EXISTS temp_json''" using ok by simp
    show "\<exists>r. snd (check_rows eng (kv_metadata eng) (t :: validation_signal trace)
            :: validation_signal trace \<times> (unit, string option) flow) = Next r \<and> \<not> truthy r" for t
      using dr un by (rule check_rows_unusable)
  qed (use ok nv in simp_all)
  show ?thesis using 12 3 by blast
qed

theorem validation_result_invariant_witness:
  "VFinished True ''Validation successful''
       [(''has_bbox'', PBool True), (''bbox_column'', PStr ''bbox'')]
     \<in> set (signals (ValidationWorker_run PRESET_DATASETS example_engine
          ''s3://overturemaps-us-west-2/release/2025-01-22.0/theme=places/type=place/*''))
   \<and> dict_get [(''has_bbox'', PBool True), (''bbox_column'', PStr ''bbox'')] ''has_bbox''
       = Some (PBool True)
   \<and> list_all (succeeds example_engine)
         [''INSTALL spatial;'', ''LOAD spatial;'', ''INSTALL httpfs;'', ''LOAD httpfs;'',
          schema_query ''https://example.org/roads.parquet'',
          metadata_query ''https://example.org/roads.parquet'',
          ''DROP TABLE IF EXISTS temp_json'']
   \<and> needs_validation PRESET_DATASETS ''https://example.org/roads.parquet''
   \<and> \<not> has_bbox_struct (describe_source example_engine)
   \<and> list_all (\<lambda>(k, v). k = Utf8 ''geo'' \<longrightarrow> \<not> usable example_engine v)
        (kv_metadata example_engine)
   \<and> signals (ValidationWorker_run PRESET_DATASETS example_engine
                 ''https://example.org/roads.parquet'') =
       [VProgress ''Connecting to data source...'', VProgress ''Checking data format...'',
        NeedsBboxWarning]
   \<and> NeedsBboxWarning \<in> set (signals (ValidationWorker_run PRESET_DATASETS example_engine
                 ''https://example.org/roads.parquet''))
   \<and> VFinished True ''Validation successful''
        [(''has_bbox'', PBool True), (''bbox_column'', PStr ''bbox'')]
       \<notin> set (signals (ValidationWorker_run PRESET_DATASETS example_engine
                 ''https://example.org/roads.parquet''))"
proof -
  let ?d = "[(''has_bbox'', PBool True), (''bbox_column'', PStr ''bbox'')]"
  have f: "VFinished True ''Validation successful'' ?d
     \<in> set (signals (ValidationWorker_run PRESET_DATASETS example_engine
          ''s3://overturemaps-us-west-2/release/2025-01-22.0/theme=places/type=place/*''))"
    by code_simp
  have n: "needs_validation PRESET_DATASETS ''https://example.org/roads.parquet''"
    by code_simp
  have h: "\<not> has_bbox_struct (describe_source example_engine)"
    by code_simp
  have u: "list_all (\<lambda>(k, v). k = Utf8 ''geo'' \<longrightarrow> \<not> usable example_engine v)
        (kv_metadata example_engine)"
    by (simp add: example_engine_def)
  have s: "list_all (succeeds example_engine) qs" for qs
    by (simp add: list_all_iff)
  show ?thesis
    using validation_result_invariant [of "''Validation successful''" ?d PRESET_DATASETS
        example_engine
        "''s3://overturemaps-us-west-2/release/2025-01-22.0/theme=places/type=place/*''"]
      validation_result_invariant [of "''Validation successful''" ?d PRESET_DATASETS
        example_engine "''https://example.org/roads.parquet''" True "''Validation successful''" ?d]
      f n h u s
    by simp
qed


end
